theory Spec2Isabelle
  imports Main
begin

section \<open>Values exchanged with the collaborators\<close>

text \<open>
  The transport of \<^verbatim>\<open>lib/transports/WebSocketTransport.js\<close> is a JavaScript object driven
  by one thread of control: public calls (\<^verbatim>\<open>send\<close>, \<^verbatim>\<open>close\<close>), socket callbacks and retry
  timers run one after the other, each to completion. A JavaScript exception is a value
  of type \<open>exn\<close>; \<^verbatim>\<open>new Error(msg)\<close> is \<open>Error msg\<close>, and the fault of dereferencing
  \<^verbatim>\<open>null\<close> is a \<open>TypeError\<close>.
\<close>

datatype exn = Error string | TypeError string

record retry_options =
  retries :: nat
  factor :: nat
  minTimeout :: nat
  maxTimeout :: nat

definition DEFAULT_RETRY_OPTIONS :: retry_options where
  "DEFAULT_RETRY_OPTIONS =
     \<lparr>retries = 10, factor = 2, minTimeout = 1 * 1000, maxTimeout = 8 * 1000\<rparr>"

text \<open>
  The options object of the constructor. The four fields handed to the socket are opaque
  here (\<open>None\<close> is \<^verbatim>\<open>undefined\<close>); \<open>retry\<close> overrides the default retry policy.
\<close>

record options =
  origin :: "string option"
  headers :: "string option"
  requestOptions :: "string option"
  clientConfig :: "string option"
  retry :: "retry_options option"

definition empty_options :: options where
  "empty_options =
     \<lparr>origin = None, headers = None, requestOptions = None, clientConfig = None, retry = None\<rparr>"

subsection \<open>The retry operation\<close>

text \<open>
  Modelled from the spec: the retry operation of the \<^verbatim>\<open>retry\<close> package, which the source
  file requires and does not contain. It holds an attempt counter, the backoff delays that
  remain (the retry budget: one delay per retry left) and the delays of the attempts that
  are scheduled and have not run yet.
\<close>

record RetryOperation =
  attempts :: nat
  timeouts :: "nat list"
  timers :: "nat list"

text \<open>
  Modelled from the spec: \<^verbatim>\<open>retry.operation(options)\<close>. The budget is \<open>retries\<close> delays,
  growing by the factor from the minimum and capped at the maximum. The first attempt,
  \<^verbatim>\<open>operation.attempt(fn)\<close>, runs \<^verbatim>\<open>fn\<close> at once with attempt number 1; it is part of
  \<open>setWebSocket\<close> below.
\<close>

definition retry_operation :: "retry_options \<Rightarrow> RetryOperation" where
  "retry_operation opts =
     \<lparr>attempts = 1,
      timeouts = map (\<lambda>i. min (minTimeout opts * factor opts ^ i) (maxTimeout opts))
                   [0..<retries opts],
      timers = []\<rparr>"

text \<open>
  Modelled from the spec: \<^verbatim>\<open>operation.retry(err)\<close> with an error given. If the budget
  remains it takes the next delay, schedules an attempt after it and answers true;
  otherwise it answers false and schedules nothing.
\<close>

definition operation_retry :: "RetryOperation \<Rightarrow> bool \<times> RetryOperation" where
  "operation_retry rop =
     (case timeouts rop of
        [] \<Rightarrow> (False, rop)
      | d # ds \<Rightarrow> (True, rop\<lparr>timeouts := ds, timers := timers rop @ [d]\<rparr>))"

text \<open>
  Modelled from the spec: \<^verbatim>\<open>operation.stop()\<close> discards what remains of the budget.
\<close>

definition operation_stop :: "RetryOperation \<Rightarrow> RetryOperation" where
  "operation_stop rop = rop\<lparr>timeouts := []\<rparr>"

subsection \<open>Sockets, sessions and the trace\<close>

text \<open>
  One call of \<^verbatim>\<open>_setWebSocket\<close> creates the variables \<^verbatim>\<open>operation\<close> and \<^verbatim>\<open>wasConnected\<close>
  that all callbacks installed by its attempts share: a \<open>session\<close>. A callback is
  therefore identified by the slot it sits in and the index of its session.
\<close>

record session =
  operation :: RetryOperation
  wasConnected :: bool

datatype slot = Onopen | Onclose | Onerror | Onmessage

text \<open>
  A socket object: its four assignable callbacks (\<open>None\<close> is \<^verbatim>\<open>null\<close>, \<open>Some k\<close> the
  closure of session \<open>k\<close>) and the state \<open>impl\<close> of the socket implementation, which is
  opaque to the transport.
\<close>

record 'w socket =
  onopen :: "nat option"
  onclose :: "nat option"
  onerror :: "nat option"
  onmessage :: "nat option"
  impl :: 'w

record close_event =
  code :: nat
  reason :: string
  wasClean :: bool

datatype name = EvOpen | EvMessage | EvDisconnected | EvClose

datatype level = Debug | Warn | Err

datatype logarg =
  ArgStr string | ArgNat nat | ArgBool bool | ArgExn exn | ArgOptions "options option"

text \<open>
  Everything the transport does to the outside, in the order it does it: a line handed to
  the logger, a public event emitted, a socket constructed, a callback slot of a socket
  assigned, and the calls of a socket's \<^verbatim>\<open>send\<close> and \<^verbatim>\<open>close\<close>.
\<close>

datatype 'm action =
  Log level string "logarg list"
  | Emit name "'m option"
  | NewSocket nat
  | Assign nat slot "nat option"
  | SocketSend nat string
  | SocketClose nat

text \<open>
  A listener is caller code that \<^verbatim>\<open>emit\<close> runs synchronously. What it can do to the
  transport is call its public methods, and it can throw; so a listener is the list of the
  calls it makes, the last of which may be \<open>CallThrow e\<close>, the listener throwing \<open>e\<close>. A
  listener does not catch: an exception that its call of \<^verbatim>\<open>close()\<close> lets escape ends the
  listener as well.
\<close>

datatype 'm call = CallClose | CallSend 'm | CallThrow exn

text \<open>
  The state of the program. \<open>url\<close>, \<open>options\<close>, \<open>ws\<close> and \<open>closed\<close> are the fields
  \<^verbatim>\<open>_url\<close>, \<^verbatim>\<open>_options\<close>, \<^verbatim>\<open>_ws\<close> and \<^verbatim>\<open>_closed\<close> of the transport object, and
  \<open>listeners\<close> is the registry it inherits from the event emitter. \<open>sockets\<close> holds every
  socket object made so far (a socket is referred to by its index, and a superseded
  socket keeps its callbacks), \<open>sessions\<close> the variables of every call of
  \<^verbatim>\<open>_setWebSocket\<close>. \<open>trace\<close> is not state of the program: it records what the program has
  done.
\<close>

record ('w, 'm) transport =
  url :: string
  options :: options
  ws :: "nat option"
  closed :: bool
  listeners :: "name \<Rightarrow> 'm call list list"
  sockets :: "'w socket list"
  sessions :: "session list"
  trace :: "'m action list"

text \<open>
  The collaborators the source file calls and does not define: the socket implementation
  (\<^verbatim>\<open>new W3CWebSocket(...)\<close>, its \<^verbatim>\<open>send\<close> and \<^verbatim>\<open>close\<close>, either of which may throw, and
  what firing one of its four events does to its own state),
  \<^verbatim>\<open>JSON.stringify\<close> (which throws on a value it cannot serialise) and \<^verbatim>\<open>Message.parse\<close>
  (which yields nothing for a malformed payload). They are parameters of every operation.
  The socket constructor is taken to return a socket: it rejects an address or options only,
  and these never change, so when it throws it does so in the constructor of the transport
  and no transport comes into being.
\<close>

record ('w, 'm) collaborators =
  ws_new :: "string \<Rightarrow> string \<Rightarrow> string option \<Rightarrow> string option \<Rightarrow> string option
             \<Rightarrow> string option \<Rightarrow> 'w"
  ws_send :: "'w \<Rightarrow> string \<Rightarrow> exn + 'w"
  ws_close :: "'w \<Rightarrow> exn + 'w"
  ws_event :: "slot \<Rightarrow> 'w \<Rightarrow> 'w"
  stringify :: "'m \<Rightarrow> exn + string"
  parse :: "string \<Rightarrow> 'm option"

text \<open>The public events emitted so far, oldest first.\<close>

fun event_of :: "'m action \<Rightarrow> (name \<times> 'm option) list" where
  "event_of (Emit n x) = [(n, x)]"
| "event_of _ = []"

definition emitted :: "('w, 'm) transport \<Rightarrow> (name \<times> 'm option) list" where
  "emitted t = concat (map event_of (trace t))"

text \<open>A call of the logger adds its line to the trace.\<close>

definition logger :: "level \<Rightarrow> string \<Rightarrow> logarg list \<Rightarrow> ('w, 'm) transport \<Rightarrow> ('w, 'm) transport" where
  "logger l fmt args t = t\<lparr>trace := trace t @ [Log l fmt args]\<rparr>"

section \<open>The public methods\<close>

text \<open>
  \<^verbatim>\<open>this._ws\<close> is a reference into \<open>sockets\<close>. A JavaScript reference is \<^verbatim>\<open>null\<close> or
  points to a live object; an index past the end of \<open>sockets\<close> has no counterpart in the
  program and is treated as \<^verbatim>\<open>null\<close>.
\<close>

definition current_socket :: "('w, 'm) transport \<Rightarrow> nat option" where
  "current_socket t =
     (case ws t of None \<Rightarrow> None | Some i \<Rightarrow> if i < length (sockets t) then Some i else None)"

definition set_impl :: "nat \<Rightarrow> 'w \<Rightarrow> ('w, 'm) transport \<Rightarrow> ('w, 'm) transport" where
  "set_impl i w t = t\<lparr>sockets := (sockets t)[i := (sockets t ! i)\<lparr>impl := w\<rparr>]\<rparr>"

text \<open>
  The body of the \<^verbatim>\<open>try\<close> block of \<^verbatim>\<open>send\<close>, line 52: the exception it throws, if any,
  and the state it leaves. \<^verbatim>\<open>this._ws.send\<close> is looked up before the argument is evaluated.
\<close>

definition try_send :: "('w, 'm) collaborators \<Rightarrow> 'm \<Rightarrow> ('w, 'm) transport
    \<Rightarrow> exn option \<times> ('w, 'm) transport" where
  "try_send env message t =
     (case current_socket t of
        None \<Rightarrow> (Some (TypeError ''Cannot read properties of null (reading send)''), t)
      | Some i \<Rightarrow>
          (case stringify env message of
             Inl e \<Rightarrow> (Some e, t)
           | Inr frame \<Rightarrow>
               (let t1 = t\<lparr>trace := trace t @ [SocketSend i frame]\<rparr> in
                case ws_send env (impl (sockets t1 ! i)) frame of
                  Inl e \<Rightarrow> (Some e, t1)
                | Inr w \<Rightarrow> (None, set_impl i w t1))))"

text \<open>
  \<^verbatim>\<open>send(message)\<close>, lines 45 to 60. The promise returned is its settled value:
  \<open>Inr ()\<close> for \<^verbatim>\<open>Promise.resolve()\<close>, \<open>Inl e\<close> for \<^verbatim>\<open>Promise.reject(e)\<close>.
\<close>

definition send :: "('w, 'm) collaborators \<Rightarrow> 'm \<Rightarrow> ('w, 'm) transport
    \<Rightarrow> (exn + unit) \<times> ('w, 'm) transport" where
  "send env message t =
     (if closed t then (Inl (Error ''transport closed''), t)
      else
        (case try_send env message t of
           (None, t') \<Rightarrow> (Inr (), t')
         | (Some error, t') \<Rightarrow>
             (Inl error, logger Err ''send() | error sending message: %o'' [ArgExn error] t')))"

text \<open>
  A call that can throw yields an outcome: the exception that escapes it, if any, and the
  state it leaves. The statements after the one that throws are not run.
\<close>

type_synonym ('w, 'm) outcome = "exn option \<times> ('w, 'm) transport"

text \<open>
  \<^verbatim>\<open>emit\<close> of the event emitter: the event is recorded, then the listeners registered
  under its name run in order, each making its calls. \<^verbatim>\<open>emit\<close> catches nothing: the first
  exception ends the emission, the listeners after it are not run, and the exception
  escapes to the caller of \<^verbatim>\<open>emit\<close>. A listener's \<^verbatim>\<open>send\<close> is the method above with its
  promise dropped (a rejected promise is not an exception). What a listener's
  \<^verbatim>\<open>close()\<close> does is the parameter \<open>reclose\<close>, because \<^verbatim>\<open>close\<close> itself emits.
\<close>

fun run_calls :: "(('w, 'm) transport \<Rightarrow> ('w, 'm) outcome) \<Rightarrow> ('w, 'm) collaborators
    \<Rightarrow> 'm call list \<Rightarrow> ('w, 'm) transport \<Rightarrow> ('w, 'm) outcome" where
  "run_calls reclose env [] t = (None, t)"
| "run_calls reclose env (CallClose # cs) t =
     (case reclose t of
        (None, t') \<Rightarrow> run_calls reclose env cs t'
      | (Some e, t') \<Rightarrow> (Some e, t'))"
| "run_calls reclose env (CallSend m # cs) t = run_calls reclose env cs (snd (send env m t))"
| "run_calls reclose env (CallThrow e # cs) t = (Some e, t)"

definition emit_with :: "(('w, 'm) transport \<Rightarrow> ('w, 'm) outcome) \<Rightarrow> ('w, 'm) collaborators
    \<Rightarrow> name \<Rightarrow> 'm option \<Rightarrow> ('w, 'm) transport \<Rightarrow> ('w, 'm) outcome" where
  "emit_with reclose env n x t =
     run_calls reclose env (concat (listeners t n)) (t\<lparr>trace := trace t @ [Emit n x]\<rparr>)"

text \<open>
  \<^verbatim>\<open>close()\<close> on a transport whose \<^verbatim>\<open>_closed\<close> is set runs lines 64 to 67 only: the debug
  line and the return at the guard.
\<close>

definition close_guarded :: "('w, 'm) transport \<Rightarrow> ('w, 'm) outcome" where
  "close_guarded t = (None, logger Debug ''close()'' [] t)"

text \<open>
  \<^verbatim>\<open>this.emit('close')\<close>. Both places that emit it (lines 71 and 155) have set
  \<^verbatim>\<open>_closed\<close> on the line before, so a listener that calls \<^verbatim>\<open>close()\<close> stops at the
  guard. Lemma \<open>emit_close_is_emit\<close> below shows that this is \<^verbatim>\<open>emit\<close> on a closed
  transport.
\<close>

definition emit_close :: "('w, 'm) collaborators \<Rightarrow> ('w, 'm) transport \<Rightarrow> ('w, 'm) outcome" where
  "emit_close env t = emit_with close_guarded env EvClose None t"

fun set_slot :: "slot \<Rightarrow> nat option \<Rightarrow> 'w socket \<Rightarrow> 'w socket" where
  "set_slot Onopen h s = s\<lparr>onopen := h\<rparr>"
| "set_slot Onclose h s = s\<lparr>onclose := h\<rparr>"
| "set_slot Onerror h s = s\<lparr>onerror := h\<rparr>"
| "set_slot Onmessage h s = s\<lparr>onmessage := h\<rparr>"

definition assign :: "nat \<Rightarrow> slot \<Rightarrow> nat option \<Rightarrow> ('w, 'm) transport \<Rightarrow> ('w, 'm) transport" where
  "assign i sl h t =
     t\<lparr>sockets := (sockets t)[i := set_slot sl h (sockets t ! i)],
       trace := trace t @ [Assign i sl h]\<rparr>"

text \<open>The body of the \<^verbatim>\<open>try\<close> block of \<^verbatim>\<open>close\<close>, lines 75 to 79.\<close>

definition try_close :: "('w, 'm) collaborators \<Rightarrow> ('w, 'm) transport
    \<Rightarrow> exn option \<times> ('w, 'm) transport" where
  "try_close env t =
     (case current_socket t of
        None \<Rightarrow> (Some (TypeError ''Cannot set properties of null (setting onopen)''), t)
      | Some i \<Rightarrow>
          (let t1 = assign i Onopen None t;
               t2 = assign i Onclose None t1;
               t3 = assign i Onerror None t2;
               t4 = assign i Onmessage None t3;
               t5 = t4\<lparr>trace := trace t4 @ [SocketClose i]\<rparr>
           in case ws_close env (impl (sockets t5 ! i)) of
                Inl e \<Rightarrow> (Some e, t5)
              | Inr w \<Rightarrow> (None, set_impl i w t5)))"

text \<open>
  \<^verbatim>\<open>close()\<close>, lines 62 to 85. The emission of line 71 stands before the \<^verbatim>\<open>try\<close> block: an
  exception of a listener escapes \<^verbatim>\<open>close()\<close> and lines 73 to 84 are not run. An exception
  of the teardown is caught, logged and dropped.
\<close>

definition close :: "('w, 'm) collaborators \<Rightarrow> ('w, 'm) transport \<Rightarrow> ('w, 'm) outcome" where
  "close env t0 =
     (let t = logger Debug ''close()'' [] t0 in
      if closed t then (None, t)
      else
        (case emit_close env (t\<lparr>closed := True\<rparr>) of
           (Some e, t1) \<Rightarrow> (Some e, t1)
         | (None, t1) \<Rightarrow>
             (case try_close env t1 of
                (None, t2) \<Rightarrow> (None, t2)
              | (Some error, t2) \<Rightarrow>
                  (None,
                   logger Err ''close() | error closing the WebSocket: %o'' [ArgExn error] t2))))"

text \<open>\<^verbatim>\<open>emit\<close> for the other events: a listener may close the transport.\<close>

definition emit :: "('w, 'm) collaborators \<Rightarrow> name \<Rightarrow> 'm option \<Rightarrow> ('w, 'm) transport
    \<Rightarrow> ('w, 'm) outcome" where
  "emit env n x t = emit_with (close env) env n x t"

section \<open>Connection attempts and the socket callbacks\<close>

definition set_operation :: "nat \<Rightarrow> RetryOperation \<Rightarrow> ('w, 'm) transport \<Rightarrow> ('w, 'm) transport" where
  "set_operation k rop t = t\<lparr>sessions := (sessions t)[k := (sessions t ! k)\<lparr>operation := rop\<rparr>]\<rparr>"

definition set_wasConnected :: "nat \<Rightarrow> bool \<Rightarrow> ('w, 'm) transport \<Rightarrow> ('w, 'm) transport" where
  "set_wasConnected k b t = t\<lparr>sessions := (sessions t)[k := (sessions t ! k)\<lparr>wasConnected := b\<rparr>]\<rparr>"

text \<open>
  The function given to \<^verbatim>\<open>operation.attempt\<close>, lines 93 to 187, run for session \<open>k\<close>: the
  guard, the new socket, and the four callbacks assigned in the order of the source.
\<close>

definition attempt :: "('w, 'm) collaborators \<Rightarrow> nat \<Rightarrow> nat \<Rightarrow> ('w, 'm) transport
    \<Rightarrow> ('w, 'm) transport" where
  "attempt env k currentAttempt t =
     (if closed t then set_operation k (operation_stop (operation (sessions t ! k))) t
      else
        (let t1 = logger Debug ''_setWebSocket() [currentAttempt:%s]'' [ArgNat currentAttempt] t;
             i = length (sockets t1);
             opts = options t1;
             s = \<lparr>onopen = None, onclose = None, onerror = None, onmessage = None,
                  impl = ws_new env (url t1) '''' (origin opts) (headers opts)
                           (requestOptions opts) (clientConfig opts)\<rparr>;
             t2 = t1\<lparr>ws := Some i, sockets := sockets t1 @ [s], trace := trace t1 @ [NewSocket i]\<rparr>;
             t3 = assign i Onopen (Some k) t2;
             t4 = assign i Onclose (Some k) t3;
             t5 = assign i Onerror (Some k) t4
         in assign i Onmessage (Some k) t5))"

text \<open>
  \<^verbatim>\<open>_setWebSocket()\<close>, lines 87 to 188: a fresh operation and a fresh \<^verbatim>\<open>wasConnected\<close>,
  then the first attempt at once.
\<close>

definition setWebSocket :: "('w, 'm) collaborators \<Rightarrow> ('w, 'm) transport \<Rightarrow> ('w, 'm) transport" where
  "setWebSocket env t =
     (let rop = retry_operation
                  (case retry (options t) of None \<Rightarrow> DEFAULT_RETRY_OPTIONS | Some r \<Rightarrow> r);
          k = length (sessions t);
          t1 = t\<lparr>sessions := sessions t @ [\<lparr>operation = rop, wasConnected = False\<rparr>]\<rparr>
      in attempt env k (attempts rop) t1)"

text \<open>
  The \<^verbatim>\<open>onopen\<close> callback of session \<open>k\<close>, lines 112 to 121. Like every callback it yields
  an outcome: an exception of a listener escapes the callback.
\<close>

definition onopen_handler :: "('w, 'm) collaborators \<Rightarrow> nat \<Rightarrow> ('w, 'm) transport
    \<Rightarrow> ('w, 'm) outcome" where
  "onopen_handler env k t =
     (if closed t then (None, t)
      else emit env EvOpen None (set_wasConnected k True t))"

text \<open>Lines 152 to 155: mark the transport closed and emit the terminal event.\<close>

definition terminal_close :: "('w, 'm) collaborators \<Rightarrow> ('w, 'm) transport \<Rightarrow> ('w, 'm) outcome" where
  "terminal_close env t = emit_close env (t\<lparr>closed := True\<rparr>)"

text \<open>
  The \<^verbatim>\<open>onclose\<close> callback of session \<open>k\<close>, lines 123 to 158. The quotation marks of the
  logged format strings are left out. An exception of a \<open>disconnected\<close> listener escapes at
  line 145, before \<^verbatim>\<open>_setWebSocket()\<close> on line 146 is reached.
\<close>

definition onclose_handler :: "('w, 'm) collaborators \<Rightarrow> nat \<Rightarrow> close_event \<Rightarrow> ('w, 'm) transport
    \<Rightarrow> ('w, 'm) outcome" where
  "onclose_handler env k event t =
     (if closed t then (None, t)
      else
        (let t1 = logger Warn ''WebSocket close event [wasClean:%s, code:%s, reason:%s]''
                    [ArgBool (wasClean event), ArgNat (code event), ArgStr (reason event)] t
         in if code event \<noteq> 4000 then
              (if \<not> wasConnected (sessions t1 ! k) then
                 (case operation_retry (operation (sessions t1 ! k)) of
                    (True, rop) \<Rightarrow> (None, set_operation k rop t1)
                  | (False, rop) \<Rightarrow> terminal_close env (set_operation k rop t1))
               else
                 (case emit env EvDisconnected None
                         (set_operation k (operation_stop (operation (sessions t1 ! k))) t1) of
                    (Some e, t2) \<Rightarrow> (Some e, t2)
                  | (None, t2) \<Rightarrow> (None, setWebSocket env t2)))
            else terminal_close env t1))"

text \<open>The \<^verbatim>\<open>onerror\<close> callback, lines 160 to 166.\<close>

definition onerror_handler :: "('w, 'm) collaborators \<Rightarrow> nat \<Rightarrow> ('w, 'm) transport
    \<Rightarrow> ('w, 'm) outcome" where
  "onerror_handler env k t =
     (if closed t then (None, t) else (None, logger Err ''WebSocket error event'' [] t))"

text \<open>The \<^verbatim>\<open>onmessage\<close> callback, lines 168 to 186; \<open>raw\<close> is \<^verbatim>\<open>event.data\<close>.\<close>

definition onmessage_handler :: "('w, 'm) collaborators \<Rightarrow> nat \<Rightarrow> string \<Rightarrow> ('w, 'm) transport
    \<Rightarrow> ('w, 'm) outcome" where
  "onmessage_handler env k raw t =
     (if closed t then (None, t)
      else
        (case parse env raw of
           None \<Rightarrow> (None, t)
         | Some message \<Rightarrow>
             if length (listeners t EvMessage) = 0
             then (None,
                   logger Err
                     ''no listeners for WebSocket message event, ignoring received message'' [] t)
             else emit env EvMessage (Some message) t))"

text \<open>\<^verbatim>\<open>new WebSocketTransport(url, options)\<close>, lines 19 to 38.\<close>

definition constructor :: "('w, 'm) collaborators \<Rightarrow> string \<Rightarrow> options option
    \<Rightarrow> ('w, 'm) transport" where
  "constructor env url0 options0 =
     setWebSocket env
       \<lparr>url = url0,
        options = (case options0 of None \<Rightarrow> empty_options | Some opts \<Rightarrow> opts),
        ws = None,
        closed = False,
        listeners = (\<lambda>n. []),
        sockets = [],
        sessions = [],
        trace = [Log Debug ''constructor() [url:%s, options:%o]''
                   [ArgStr url0, ArgOptions options0]]\<rparr>"

section \<open>The event loop\<close>

text \<open>
  What can happen to a transport: a socket fires one of its four events and calls the
  callback in the matching slot, if one is assigned; a scheduled retry comes due and the
  operation runs the attempt with the next attempt number; the caller calls \<^verbatim>\<open>send\<close> or
  \<^verbatim>\<open>close\<close>, or registers a listener with \<^verbatim>\<open>on\<close>. An exception that escapes a callback
  or \<^verbatim>\<open>close()\<close> goes to its caller; the transport is left in the state the call had
  reached, and that is the state the next input finds.
\<close>

datatype 'm input =
  FireOpen nat
  | FireClose nat close_event
  | FireError nat
  | FireMessage nat string
  | Timeout nat
  | DoSend 'm
  | DoClose
  | On name "'m call list"

definition timeout :: "('w, 'm) collaborators \<Rightarrow> nat \<Rightarrow> ('w, 'm) transport \<Rightarrow> ('w, 'm) transport" where
  "timeout env k t =
     (if k < length (sessions t) then
        (case timers (operation (sessions t ! k)) of
           [] \<Rightarrow> t
         | d # ds \<Rightarrow>
             (let rop = operation (sessions t ! k);
                  n = Suc (attempts rop)
              in attempt env k n (set_operation k (rop\<lparr>attempts := n, timers := ds\<rparr>) t)))
      else t)"

definition fire :: "('w, 'm) collaborators \<Rightarrow> nat \<Rightarrow> slot \<Rightarrow> ('w, 'm) transport \<Rightarrow> ('w, 'm) transport" where
  "fire env i sl t = set_impl i (ws_event env sl (impl (sockets t ! i))) t"

fun step :: "('w, 'm) collaborators \<Rightarrow> 'm input \<Rightarrow> ('w, 'm) transport \<Rightarrow> ('w, 'm) transport" where
  "step env (FireOpen i) t =
     (if i < length (sockets t)
      then (let t1 = fire env i Onopen t
            in case onopen (sockets t1 ! i) of
                 None \<Rightarrow> t1
               | Some k \<Rightarrow> snd (onopen_handler env k t1))
      else t)"
| "step env (FireClose i event) t =
     (if i < length (sockets t)
      then (let t1 = fire env i Onclose t
            in case onclose (sockets t1 ! i) of
                 None \<Rightarrow> t1
               | Some k \<Rightarrow> snd (onclose_handler env k event t1))
      else t)"
| "step env (FireError i) t =
     (if i < length (sockets t)
      then (let t1 = fire env i Onerror t
            in case onerror (sockets t1 ! i) of
                 None \<Rightarrow> t1
               | Some k \<Rightarrow> snd (onerror_handler env k t1))
      else t)"
| "step env (FireMessage i raw) t =
     (if i < length (sockets t)
      then (let t1 = fire env i Onmessage t
            in case onmessage (sockets t1 ! i) of
                 None \<Rightarrow> t1
               | Some k \<Rightarrow> snd (onmessage_handler env k raw t1))
      else t)"
| "step env (Timeout k) t = timeout env k t"
| "step env (DoSend message) t = snd (send env message t)"
| "step env DoClose t = snd (close env t)"
| "step env (On n l) t = t\<lparr>listeners := (listeners t)(n := listeners t n @ [l])\<rparr>"

fun run :: "('w, 'm) collaborators \<Rightarrow> 'm input list \<Rightarrow> ('w, 'm) transport \<Rightarrow> ('w, 'm) transport" where
  "run env [] t = t"
| "run env (x # xs) t = run env xs (step env x t)"

section \<open>A reference socket and example transports\<close>

text \<open>
  A socket implementation with the \<^verbatim>\<open>readyState\<close> of the W3C interface, used for the
  concrete runs below: \<^verbatim>\<open>send\<close> throws unless the socket is open, \<^verbatim>\<open>close\<close> never throws.
  Messages are strings, or a value that \<^verbatim>\<open>JSON.stringify\<close> rejects (a \<^verbatim>\<open>BigInt\<close>).
\<close>

datatype readyState = CONNECTING | OPEN | CLOSING | CLOSED

datatype jsvalue = JString string | JBigInt int

definition w3c :: "(readyState, jsvalue) collaborators" where
  "w3c =
     \<lparr>ws_new = (\<lambda>u p og hd ro cc. CONNECTING),
      ws_send = (\<lambda>w frame. if w = OPEN then Inr w
                           else Inl (Error ''cannot call send() while not connected'')),
      ws_close = (\<lambda>w. Inr (if w = CLOSED then CLOSED else CLOSING)),
      ws_event = (\<lambda>sl w. case sl of Onopen \<Rightarrow> OPEN | Onclose \<Rightarrow> CLOSED | _ \<Rightarrow> w),
      stringify = (\<lambda>m. case m of
                          JString s \<Rightarrow> Inr s
                        | JBigInt n \<Rightarrow> Inl (TypeError ''Do not know how to serialize a BigInt'')),
      parse = (\<lambda>raw. if raw = [] then None else Some (JString raw))\<rparr>"

text \<open>The same socket, except that its \<^verbatim>\<open>close\<close> throws.\<close>

definition w3c_faulty :: "(readyState, jsvalue) collaborators" where
  "w3c_faulty = w3c\<lparr>ws_close := (\<lambda>w. Inl (Error ''close failed''))\<rparr>"

definition abnormal :: close_event where
  "abnormal = \<lparr>code = 1006, reason = [], wasClean = False\<rparr>"

definition by_server :: close_event where
  "by_server = \<lparr>code = 4000, reason = ''closed by server'', wasClean = True\<rparr>"

text \<open>A transport just constructed, and one whose first socket has opened.\<close>

definition fresh :: "(readyState, jsvalue) transport" where
  "fresh = constructor w3c ''wss://example.org'' None"

definition connected :: "(readyState, jsvalue) transport" where
  "connected = run w3c [On EvMessage [], FireOpen 0] fresh"

text \<open>
  A transport configured with no retry at all, and the driver of a run of failed attempts
  of session \<open>k\<close>: for each close event in turn the close callback of the session runs,
  then the retry that is due.
\<close>

definition no_retry :: options where
  "no_retry =
     empty_options\<lparr>retry := Some \<lparr>retries = 0, factor = 2, minTimeout = 1000, maxTimeout = 8000\<rparr>\<rparr>"

definition hasty :: "(readyState, jsvalue) transport" where
  "hasty = constructor w3c ''wss://example.org'' (Some no_retry)"

fun failed_attempts :: "('w, 'm) collaborators \<Rightarrow> nat \<Rightarrow> close_event list \<Rightarrow> ('w, 'm) transport
    \<Rightarrow> ('w, 'm) transport" where
  "failed_attempts env k [] t = t"
| "failed_attempts env k (event # events) t =
     failed_attempts env k events (timeout env k (snd (onclose_handler env k event t)))"

text \<open>
  A transport whose caller closes it as soon as it hears \<open>disconnected\<close>, after its first
  socket has opened.
\<close>

definition quitter :: "(readyState, jsvalue) transport" where
  "quitter = run w3c [On EvDisconnected [CallClose], FireOpen 0] fresh"

text \<open>
  Two transports with a listener that throws, one on \<open>disconnected\<close> and one on \<open>close\<close>,
  after their first socket has opened.
\<close>

definition listener_error :: exn where
  "listener_error = Error ''listener failed''"

definition thrower :: "(readyState, jsvalue) transport" where
  "thrower = run w3c [On EvDisconnected [CallThrow listener_error], FireOpen 0] fresh"

definition spoiler :: "(readyState, jsvalue) transport" where
  "spoiler = run w3c [On EvClose [CallThrow listener_error], FireOpen 0] fresh"

text \<open>
  For the calls that listeners make on a closed transport, where \<^verbatim>\<open>close()\<close> stops at
  its guard and cannot throw: the exception that ends them, if any, and the calls made
  before it. On a transport that is not closed the calls before the first \<open>CallThrow\<close> are
  made as well, up to a \<^verbatim>\<open>close()\<close> that lets an exception escape.
\<close>

fun thrown :: "'m call list \<Rightarrow> exn option" where
  "thrown [] = None"
| "thrown (CallThrow e # cs) = Some e"
| "thrown (c # cs) = thrown cs"

fun reached :: "'m call list \<Rightarrow> 'm call list" where
  "reached [] = []"
| "reached (CallThrow e # cs) = []"
| "reached (c # cs) = c # reached cs"

section \<open>What the public methods leave alone\<close>

lemma logger_fields:
  "closed (logger l f a t) = closed t"
  "ws (logger l f a t) = ws t"
  "url (logger l f a t) = url t"
  "options (logger l f a t) = options t"
  "listeners (logger l f a t) = listeners t"
  "sockets (logger l f a t) = sockets t"
  "sessions (logger l f a t) = sessions t"
  "trace (logger l f a t) = trace t @ [Log l f a]"
  "emitted (logger l f a t) = emitted t"
  "current_socket (logger l f a t) = current_socket t"
  by (simp_all add: logger_def emitted_def current_socket_def split: option.splits)

lemma send_closed: "closed t \<Longrightarrow> send env m t = (Inl (Error ''transport closed''), t)"
  by (simp add: send_def)

lemma send_frame:
  "closed (snd (send env m t)) = closed t"
  "ws (snd (send env m t)) = ws t"
  "url (snd (send env m t)) = url t"
  "options (snd (send env m t)) = options t"
  "listeners (snd (send env m t)) = listeners t"
  "sessions (snd (send env m t)) = sessions t"
  "length (sockets (snd (send env m t))) = length (sockets t)"
  "emitted (snd (send env m t)) = emitted t"
  by (auto simp: send_def try_send_def set_impl_def logger_def emitted_def Let_def
      split: option.splits sum.splits)

lemma send_current_socket: "current_socket (snd (send env m t)) = current_socket t"
  by (simp add: current_socket_def send_frame split: option.splits)

lemma reached_all: "thrown cs = None \<Longrightarrow> reached cs = cs"
  by (induction cs rule: thrown.induct) simp_all

lemma reached_subset: "set (reached cs) \<subseteq> set cs"
  by (induction cs rule: reached.induct) auto

lemma run_calls_closed:
  "closed t \<Longrightarrow>
   run_calls close_guarded env cs t =
     (thrown cs,
      t\<lparr>trace := trace t @
           map (\<lambda>c. Log Debug ''close()'' []) (filter (\<lambda>c. c = CallClose) (reached cs))\<rparr>)"
proof (induction cs arbitrary: t)
  case Nil
  then show ?case by simp
next
  case (Cons c cs)
  show ?case
  proof (cases c)
    case CallClose
    have "closed (logger Debug ''close()'' [] t)" using Cons.prems by (simp add: logger_fields)
    from Cons.IH[OF this] CallClose show ?thesis by (simp add: close_guarded_def logger_def)
  next
    case (CallSend m)
    with Cons show ?thesis by (simp add: send_closed)
  next
    case (CallThrow e)
    then show ?thesis by simp
  qed
qed

lemma emit_close_closed:
  "closed t \<Longrightarrow>
   emit_close env t =
     (thrown (concat (listeners t EvClose)),
      t\<lparr>trace := trace t @ Emit EvClose None #
           map (\<lambda>c. Log Debug ''close()'' [])
             (filter (\<lambda>c. c = CallClose) (reached (concat (listeners t EvClose))))\<rparr>)"
  by (simp add: emit_close_def emit_with_def run_calls_closed)

lemma close_closed: "closed t \<Longrightarrow> close env t = (None, logger Debug ''close()'' [] t)"
  by (simp add: close_def logger_fields)

lemma run_calls_reclose_cong:
  "closed t \<Longrightarrow> run_calls (close env) env cs t = run_calls close_guarded env cs t"
proof (induction cs arbitrary: t)
  case Nil
  then show ?case by simp
next
  case (Cons c cs)
  show ?case
  proof (cases c)
    case CallClose
    with Cons show ?thesis by (simp add: close_closed close_guarded_def logger_fields)
  next
    case (CallSend m)
    with Cons show ?thesis by (simp add: send_closed)
  next
    case (CallThrow e)
    then show ?thesis by simp
  qed
qed

lemma emit_close_is_emit: "closed t \<Longrightarrow> emit env EvClose None t = emit_close env t"
  by (simp add: emit_def emit_close_def emit_with_def run_calls_reclose_cong)

lemma emitted_append:
  "emitted (t\<lparr>trace := trace t @ xs\<rparr>) = emitted t @ concat (map event_of xs)"
  by (simp add: emitted_def)

lemma emit_close_frame:
  assumes "closed t"
  shows "ws (snd (emit_close env t)) = ws t"
    and "url (snd (emit_close env t)) = url t"
    and "options (snd (emit_close env t)) = options t"
    and "listeners (snd (emit_close env t)) = listeners t"
    and "sessions (snd (emit_close env t)) = sessions t"
    and "sockets (snd (emit_close env t)) = sockets t"
    and "closed (snd (emit_close env t))"
    and "emitted (snd (emit_close env t)) = emitted t @ [(EvClose, None)]"
    and "fst (emit_close env t) = thrown (concat (listeners t EvClose))"
  using assms by (simp_all add: emit_close_closed emitted_def)

lemma assign_fields:
  "closed (assign i sl h t) = closed t"
  "ws (assign i sl h t) = ws t"
  "url (assign i sl h t) = url t"
  "options (assign i sl h t) = options t"
  "listeners (assign i sl h t) = listeners t"
  "sessions (assign i sl h t) = sessions t"
  "length (sockets (assign i sl h t)) = length (sockets t)"
  "trace (assign i sl h t) = trace t @ [Assign i sl h]"
  "emitted (assign i sl h t) = emitted t"
  by (simp_all add: assign_def emitted_def)

lemma set_impl_fields:
  "closed (set_impl i w t) = closed t"
  "ws (set_impl i w t) = ws t"
  "url (set_impl i w t) = url t"
  "options (set_impl i w t) = options t"
  "listeners (set_impl i w t) = listeners t"
  "sessions (set_impl i w t) = sessions t"
  "length (sockets (set_impl i w t)) = length (sockets t)"
  "trace (set_impl i w t) = trace t"
  "emitted (set_impl i w t) = emitted t"
  by (simp_all add: set_impl_def emitted_def)

lemma try_close_frame:
  "closed (snd (try_close env t)) = closed t"
  "ws (snd (try_close env t)) = ws t"
  "url (snd (try_close env t)) = url t"
  "options (snd (try_close env t)) = options t"
  "listeners (snd (try_close env t)) = listeners t"
  "sessions (snd (try_close env t)) = sessions t"
  "length (sockets (snd (try_close env t))) = length (sockets t)"
  by (simp_all add: try_close_def Let_def assign_fields set_impl_fields
      split: option.splits sum.splits)

lemma try_close_emitted: "emitted (snd (try_close env t)) = emitted t"
  by (simp add: try_close_def Let_def assign_def set_impl_def emitted_def
      split: option.splits sum.splits)

lemma close_unfold:
  "\<not> closed t \<Longrightarrow>
   close env t =
     (let u = emit_close env (logger Debug ''close()'' [] t\<lparr>closed := True\<rparr>)
      in case fst u of
           Some e \<Rightarrow> (Some e, snd u)
         | None \<Rightarrow>
             (let r = try_close env (snd u)
              in (None,
                  case fst r of
                    None \<Rightarrow> snd r
                  | Some error \<Rightarrow>
                      logger Err ''close() | error closing the WebSocket: %o'' [ArgExn error]
                        (snd r))))"
  by (simp add: close_def Let_def logger_fields split: prod.splits option.splits)

lemma close_frame:
  "closed (snd (close env t))"
  "ws (snd (close env t)) = ws t"
  "url (snd (close env t)) = url t"
  "options (snd (close env t)) = options t"
  "listeners (snd (close env t)) = listeners t"
  "sessions (snd (close env t)) = sessions t"
  "length (sockets (snd (close env t))) = length (sockets t)"
  "emitted (snd (close env t)) = emitted t @ (if closed t then [] else [(EvClose, None)])"
proof -
  let ?u = "logger Debug ''close()'' [] t\<lparr>closed := True\<rparr>"
  have u: "closed ?u" by simp
  have f: "ws ?u = ws t" "url ?u = url t" "options ?u = options t" "listeners ?u = listeners t"
    "sessions ?u = sessions t" "sockets ?u = sockets t"
    by (simp_all add: logger_fields)
  have e: "emitted ?u = emitted t" by (simp add: emitted_def logger_def)
  note ec = emit_close_frame[OF u]
  show "closed (snd (close env t))"
    by (cases "closed t")
      (simp_all add: close_closed logger_fields close_unfold Let_def try_close_frame ec
        split: option.splits)
  show "ws (snd (close env t)) = ws t"
    by (cases "closed t")
      (simp_all add: close_closed logger_fields close_unfold Let_def try_close_frame ec f
        split: option.splits)
  show "url (snd (close env t)) = url t"
    by (cases "closed t")
      (simp_all add: close_closed logger_fields close_unfold Let_def try_close_frame ec f
        split: option.splits)
  show "options (snd (close env t)) = options t"
    by (cases "closed t")
      (simp_all add: close_closed logger_fields close_unfold Let_def try_close_frame ec f
        split: option.splits)
  show "listeners (snd (close env t)) = listeners t"
    by (cases "closed t")
      (simp_all add: close_closed logger_fields close_unfold Let_def try_close_frame ec f
        split: option.splits)
  show "sessions (snd (close env t)) = sessions t"
    by (cases "closed t")
      (simp_all add: close_closed logger_fields close_unfold Let_def try_close_frame ec f
        split: option.splits)
  show "length (sockets (snd (close env t))) = length (sockets t)"
    by (cases "closed t")
      (simp_all add: close_closed logger_fields close_unfold Let_def try_close_frame ec f
        split: option.splits)
  show "emitted (snd (close env t)) = emitted t @ (if closed t then [] else [(EvClose, None)])"
    by (cases "closed t")
      (simp_all add: close_closed logger_fields close_unfold Let_def try_close_emitted ec e
        split: option.splits)
qed

lemma run_calls_frame:
  "ws (snd (run_calls (close env) env cs t)) = ws t \<and>
   url (snd (run_calls (close env) env cs t)) = url t \<and>
   options (snd (run_calls (close env) env cs t)) = options t \<and>
   listeners (snd (run_calls (close env) env cs t)) = listeners t \<and>
   sessions (snd (run_calls (close env) env cs t)) = sessions t \<and>
   length (sockets (snd (run_calls (close env) env cs t))) = length (sockets t)"
proof (induction cs arbitrary: t)
  case Nil
  show ?case by simp
next
  case (Cons c cs)
  show ?case
  proof (cases c)
    case CallClose
    show ?thesis
    proof (cases "fst (close env t)")
      case None
      then have "run_calls (close env) env (c # cs) t =
          run_calls (close env) env cs (snd (close env t))"
        using CallClose by (cases "close env t") simp_all
      with Cons[of "snd (close env t)"] show ?thesis by (simp add: close_frame)
    next
      case (Some e)
      then have "run_calls (close env) env (c # cs) t = (Some e, snd (close env t))"
        using CallClose by (cases "close env t") simp_all
      then show ?thesis by (simp add: close_frame)
    qed
  next
    case (CallSend m)
    with Cons[of "snd (send env m t)"] show ?thesis by (simp add: send_frame)
  next
    case (CallThrow e)
    then show ?thesis by simp
  qed
qed

lemma run_calls_closed_emitted:
  "closed (snd (run_calls (close env) env cs t)) = (closed t \<or> CallClose \<in> set (reached cs)) \<and>
   emitted (snd (run_calls (close env) env cs t)) =
     emitted t @ (if \<not> closed t \<and> CallClose \<in> set (reached cs) then [(EvClose, None)] else [])"
proof (induction cs arbitrary: t)
  case Nil
  show ?case by simp
next
  case (Cons c cs)
  show ?case
  proof (cases c)
    case CallClose
    show ?thesis
    proof (cases "fst (close env t)")
      case None
      then have "run_calls (close env) env (c # cs) t =
          run_calls (close env) env cs (snd (close env t))"
        using CallClose by (cases "close env t") simp_all
      with Cons[of "snd (close env t)"] CallClose show ?thesis by (simp add: close_frame)
    next
      case (Some e)
      then have "run_calls (close env) env (c # cs) t = (Some e, snd (close env t))"
        using CallClose by (cases "close env t") simp_all
      with CallClose show ?thesis by (simp add: close_frame)
    qed
  next
    case (CallSend m)
    with Cons[of "snd (send env m t)"] show ?thesis by (simp add: send_frame)
  next
    case (CallThrow e)
    then show ?thesis by simp
  qed
qed

lemma run_calls_quiet:
  "thrown cs = None \<Longrightarrow> CallClose \<notin> set cs \<Longrightarrow> fst (run_calls rc env cs t) = None"
proof (induction cs arbitrary: t)
  case Nil
  show ?case by simp
next
  case (Cons c cs)
  then show ?case by (cases c) simp_all
qed

lemma run_calls_throws:
  "CallClose \<notin> set cs \<Longrightarrow> fst (run_calls rc env cs t) = thrown cs"
proof (induction cs arbitrary: t)
  case Nil
  show ?case by simp
next
  case (Cons c cs)
  then show ?case by (cases c) simp_all
qed

lemma emit_frame:
  "ws (snd (emit env n x t)) = ws t"
  "url (snd (emit env n x t)) = url t"
  "options (snd (emit env n x t)) = options t"
  "listeners (snd (emit env n x t)) = listeners t"
  "sessions (snd (emit env n x t)) = sessions t"
  "length (sockets (snd (emit env n x t))) = length (sockets t)"
  "closed (snd (emit env n x t)) = (closed t \<or> CallClose \<in> set (reached (concat (listeners t n))))"
  "emitted (snd (emit env n x t)) =
     emitted t @ (n, x) #
       (if \<not> closed t \<and> CallClose \<in> set (reached (concat (listeners t n)))
        then [(EvClose, None)] else [])"
  using run_calls_frame[of env "concat (listeners t n)" "t\<lparr>trace := trace t @ [Emit n x]\<rparr>"]
    run_calls_closed_emitted[of env "concat (listeners t n)" "t\<lparr>trace := trace t @ [Emit n x]\<rparr>"]
  by (simp_all add: emit_def emit_with_def emitted_append)

lemma emit_quiet:
  "thrown (concat (listeners t n)) = None \<Longrightarrow> CallClose \<notin> set (concat (listeners t n)) \<Longrightarrow>
   fst (emit env n x t) = None"
  by (simp add: emit_def emit_with_def run_calls_quiet)

lemma emit_throws:
  "CallClose \<notin> set (concat (listeners t n)) \<Longrightarrow>
   fst (emit env n x t) = thrown (concat (listeners t n))"
  by (simp add: emit_def emit_with_def run_calls_throws)

section \<open>The example transports, evaluated\<close>

lemma upt10: "[0..<10] = [0, 1, 2, 3, 4, 5, 6, 7, 8, 9 :: nat]"
  by (simp add: upt_rec)

lemma default_operation:
  "retry_operation DEFAULT_RETRY_OPTIONS =
     \<lparr>attempts = 1, timeouts = [1000, 2000, 4000, 8000, 8000, 8000, 8000, 8000, 8000, 8000],
      timers = []\<rparr>"
  by (simp add: retry_operation_def DEFAULT_RETRY_OPTIONS_def upt10)

lemma fresh_eq:
  "fresh =
     \<lparr>url = ''wss://example.org'', options = empty_options, ws = Some 0, closed = False,
      listeners = (\<lambda>n. []),
      sockets = [\<lparr>onopen = Some 0, onclose = Some 0, onerror = Some 0, onmessage = Some 0,
                  impl = CONNECTING\<rparr>],
      sessions = [\<lparr>operation = retry_operation DEFAULT_RETRY_OPTIONS, wasConnected = False\<rparr>],
      trace = [Log Debug ''constructor() [url:%s, options:%o]''
                 [ArgStr ''wss://example.org'', ArgOptions None],
               Log Debug ''_setWebSocket() [currentAttempt:%s]'' [ArgNat 1], NewSocket 0,
               Assign 0 Onopen (Some 0), Assign 0 Onclose (Some 0),
               Assign 0 Onerror (Some 0), Assign 0 Onmessage (Some 0)]\<rparr>"
  by (simp add: fresh_def constructor_def setWebSocket_def attempt_def assign_def logger_def
      Let_def empty_options_def w3c_def retry_operation_def)

lemma opened_eq:
  "run w3c [On n l, FireOpen 0] fresh =
     \<lparr>url = ''wss://example.org'', options = empty_options, ws = Some 0, closed = False,
      listeners = (\<lambda>n. [])(n := [l]),
      sockets = [\<lparr>onopen = Some 0, onclose = Some 0, onerror = Some 0, onmessage = Some 0,
                  impl = OPEN\<rparr>],
      sessions = [\<lparr>operation = retry_operation DEFAULT_RETRY_OPTIONS, wasConnected = True\<rparr>],
      trace = [Log Debug ''constructor() [url:%s, options:%o]''
                 [ArgStr ''wss://example.org'', ArgOptions None],
               Log Debug ''_setWebSocket() [currentAttempt:%s]'' [ArgNat 1], NewSocket 0,
               Assign 0 Onopen (Some 0), Assign 0 Onclose (Some 0),
               Assign 0 Onerror (Some 0), Assign 0 Onmessage (Some 0), Emit EvOpen None]\<rparr>"
  if "n \<noteq> EvOpen"
  using that
  by (simp add: fresh_eq fire_def set_impl_def onopen_handler_def
      set_wasConnected_def emit_def emit_with_def w3c_def)

lemma connected_eq:
  "connected =
     \<lparr>url = ''wss://example.org'', options = empty_options, ws = Some 0, closed = False,
      listeners = (\<lambda>n. [])(EvMessage := [[]]),
      sockets = [\<lparr>onopen = Some 0, onclose = Some 0, onerror = Some 0, onmessage = Some 0,
                  impl = OPEN\<rparr>],
      sessions = [\<lparr>operation = retry_operation DEFAULT_RETRY_OPTIONS, wasConnected = True\<rparr>],
      trace = [Log Debug ''constructor() [url:%s, options:%o]''
                 [ArgStr ''wss://example.org'', ArgOptions None],
               Log Debug ''_setWebSocket() [currentAttempt:%s]'' [ArgNat 1], NewSocket 0,
               Assign 0 Onopen (Some 0), Assign 0 Onclose (Some 0),
               Assign 0 Onerror (Some 0), Assign 0 Onmessage (Some 0), Emit EvOpen None]\<rparr>"
  unfolding connected_def by (rule opened_eq) simp

lemma connected_facts:
  "\<not> closed connected"
  "emitted connected = [(EvOpen, None)]"
  "current_socket connected = Some 0"
  "wasConnected (sessions connected ! 0)"
  by (simp_all add: connected_eq emitted_def current_socket_def)

section \<open>Callbacks after closure\<close>

text \<open>
  C1. On a transport whose \<open>closed\<close> flag is set, each of the four socket callbacks returns
  the state it was given and throws nothing: nothing is emitted, nothing is logged and no
  field changes.
\<close>

theorem callbacks_ignored_when_closed:
  assumes "closed t"
  shows "onopen_handler env k t = (None, t) \<and> onclose_handler env k event t = (None, t) \<and>
         onerror_handler env k t = (None, t) \<and> onmessage_handler env k raw t = (None, t)"
  using assms
  by (simp add: onopen_handler_def onclose_handler_def onerror_handler_def onmessage_handler_def)

theorem callbacks_ignored_when_closed_witness:
  "closed (snd (close w3c connected)) \<and>
   emitted (snd (close w3c connected)) = [(EvOpen, None), (EvClose, None)] \<and>
   onopen_handler w3c 0 (snd (close w3c connected)) = (None, snd (close w3c connected)) \<and>
   onclose_handler w3c 0 abnormal (snd (close w3c connected)) = (None, snd (close w3c connected)) \<and>
   onerror_handler w3c 0 (snd (close w3c connected)) = (None, snd (close w3c connected)) \<and>
   onmessage_handler w3c 0 ''{}'' (snd (close w3c connected)) = (None, snd (close w3c connected))"
proof -
  have c: "closed (snd (close w3c connected))" by (rule close_frame(1))
  have e: "emitted (snd (close w3c connected)) = [(EvOpen, None), (EvClose, None)]"
    by (simp add: close_frame(8) connected_facts)
  show ?thesis
    using c e callbacks_ignored_when_closed [OF c, of w3c 0 abnormal "''{}''"] by simp
qed

text \<open>
  C9. \<^verbatim>\<open>send\<close> changes no field of the transport object, whatever its outcome: the closed
  flag, the socket reference, the URL, the options, the listeners and the sessions are the
  same before and after.
\<close>

theorem send_leaves_transport_fields:
  "closed (snd (send env message t)) = closed t \<and>
   ws (snd (send env message t)) = ws t \<and>
   url (snd (send env message t)) = url t \<and>
   options (snd (send env message t)) = options t \<and>
   listeners (snd (send env message t)) = listeners t \<and>
   sessions (snd (send env message t)) = sessions t"
  by (simp add: send_frame)

section \<open>Terminal closure\<close>

lemma set_operation_fields:
  "closed (set_operation k rop t) = closed t"
  "ws (set_operation k rop t) = ws t"
  "url (set_operation k rop t) = url t"
  "options (set_operation k rop t) = options t"
  "listeners (set_operation k rop t) = listeners t"
  "sockets (set_operation k rop t) = sockets t"
  "length (sessions (set_operation k rop t)) = length (sessions t)"
  "trace (set_operation k rop t) = trace t"
  "emitted (set_operation k rop t) = emitted t"
  by (simp_all add: set_operation_def emitted_def)

lemma set_operation_same: "set_operation k (operation (sessions t ! k)) t = t"
  by (simp add: set_operation_def)

lemma terminal_close_fields:
  "closed (snd (terminal_close env t))"
  "ws (snd (terminal_close env t)) = ws t"
  "url (snd (terminal_close env t)) = url t"
  "options (snd (terminal_close env t)) = options t"
  "listeners (snd (terminal_close env t)) = listeners t"
  "sessions (snd (terminal_close env t)) = sessions t"
  "sockets (snd (terminal_close env t)) = sockets t"
  "emitted (snd (terminal_close env t)) = emitted t @ [(EvClose, None)]"
  by (simp_all add: terminal_close_def emit_close_closed emitted_def)

lemma closed_step:
  assumes "closed t"
  shows "closed (step env x t)"
    and "emitted (step env x t) = emitted t"
    and "length (sockets (step env x t)) = length (sockets t)"
  using assms
  by (cases x;
      simp add: Let_def fire_def set_impl_fields onopen_handler_def onclose_handler_def
        onerror_handler_def onmessage_handler_def timeout_def attempt_def set_operation_fields
        send_closed close_closed logger_fields emitted_def
      split: option.splits list.splits)+

lemma closed_run:
  "closed t \<Longrightarrow>
   closed (run env ins t) \<and> emitted (run env ins t) = emitted t \<and>
   length (sockets (run env ins t)) = length (sockets t)"
proof (induction ins arbitrary: t)
  case Nil
  then show ?case by simp
next
  case (Cons x xs)
  from closed_step[OF Cons.prems, of env x] Cons.IH[of "step env x t"]
  show ?case by simp
qed

text \<open>
  C2. A close callback on a transport that is not closed, carrying code 4000, or arriving
  when the session never opened and its operation has no retry left, sets the closed flag
  and emits exactly one \<open>close\<close> event; it creates no socket and schedules nothing, and
  whatever happens afterwards (callbacks, timers coming due, public calls) creates no
  socket and emits no event.
\<close>

theorem terminal_close_on_4000_or_exhausted:
  assumes "\<not> closed t"
    and "code event = 4000 \<or>
         (\<not> wasConnected (sessions t ! k) \<and> timeouts (operation (sessions t ! k)) = [])"
  shows "closed (snd (onclose_handler env k event t)) \<and>
         emitted (snd (onclose_handler env k event t)) = emitted t @ [(EvClose, None)] \<and>
         sockets (snd (onclose_handler env k event t)) = sockets t \<and>
         sessions (snd (onclose_handler env k event t)) = sessions t \<and>
         (\<forall>ins. closed (run env ins (snd (onclose_handler env k event t))) \<and>
                emitted (run env ins (snd (onclose_handler env k event t))) =
                  emitted (snd (onclose_handler env k event t)) \<and>
                length (sockets (run env ins (snd (onclose_handler env k event t)))) =
                  length (sockets t))"
proof -
  let ?t1 = "logger Warn ''WebSocket close event [wasClean:%s, code:%s, reason:%s]''
               [ArgBool (wasClean event), ArgNat (code event), ArgStr (reason event)] t"
  have h: "onclose_handler env k event t = terminal_close env ?t1"
  proof (cases "code event = 4000")
    case True
    with assms(1) show ?thesis by (simp add: onclose_handler_def Let_def)
  next
    case False
    with assms(2) have nc: "\<not> wasConnected (sessions t ! k)"
      and ex: "timeouts (operation (sessions t ! k)) = []" by simp_all
    have "operation_retry (operation (sessions ?t1 ! k)) = (False, operation (sessions ?t1 ! k))"
      using ex by (simp add: operation_retry_def logger_fields)
    moreover have "set_operation k (operation (sessions t ! k)) ?t1 = ?t1"
      by (simp add: set_operation_def logger_def)
    ultimately show ?thesis using assms(1) False nc
      by (simp add: onclose_handler_def Let_def logger_fields)
  qed
  have c: "closed (snd (onclose_handler env k event t))" by (simp add: h terminal_close_fields)
  have s: "sockets (snd (onclose_handler env k event t)) = sockets t"
    by (simp add: h terminal_close_fields logger_fields)
  from closed_run[OF c, of env] c s show ?thesis
    by (simp add: h terminal_close_fields logger_fields)
qed

lemma hasty_eq:
  "hasty =
     \<lparr>url = ''wss://example.org'', options = no_retry, ws = Some 0, closed = False,
      listeners = (\<lambda>n. []),
      sockets = [\<lparr>onopen = Some 0, onclose = Some 0, onerror = Some 0, onmessage = Some 0,
                  impl = CONNECTING\<rparr>],
      sessions = [\<lparr>operation = \<lparr>attempts = 1, timeouts = [], timers = []\<rparr>,
                   wasConnected = False\<rparr>],
      trace = [Log Debug ''constructor() [url:%s, options:%o]''
                 [ArgStr ''wss://example.org'', ArgOptions (Some no_retry)],
               Log Debug ''_setWebSocket() [currentAttempt:%s]'' [ArgNat 1], NewSocket 0,
               Assign 0 Onopen (Some 0), Assign 0 Onclose (Some 0),
               Assign 0 Onerror (Some 0), Assign 0 Onmessage (Some 0)]\<rparr>"
  by (simp add: hasty_def constructor_def setWebSocket_def attempt_def assign_def logger_def
      Let_def no_retry_def empty_options_def w3c_def retry_operation_def)

lemma hasty_facts:
  "\<not> closed hasty"
  "emitted hasty = []"
  "\<not> wasConnected (sessions hasty ! 0)"
  "timeouts (operation (sessions hasty ! 0)) = []"
  "length (sockets hasty) = 1"
  by (simp_all add: hasty_eq emitted_def)

theorem terminal_close_on_4000_or_exhausted_witness:
  "\<not> closed connected \<and> code by_server = 4000 \<and>
   closed (snd (onclose_handler w3c 0 by_server connected)) \<and>
   emitted (snd (onclose_handler w3c 0 by_server connected)) = [(EvOpen, None), (EvClose, None)] \<and>
   length (sockets (run w3c [Timeout 0, FireOpen 0, DoSend (JString ''x''), DoClose]
                      (snd (onclose_handler w3c 0 by_server connected)))) = 1 \<and>
   \<not> closed hasty \<and> code abnormal \<noteq> 4000 \<and> \<not> wasConnected (sessions hasty ! 0) \<and>
   timeouts (operation (sessions hasty ! 0)) = [] \<and>
   closed (snd (onclose_handler w3c 0 abnormal hasty)) \<and>
   emitted (snd (onclose_handler w3c 0 abnormal hasty)) = [(EvClose, None)] \<and>
   emitted (run w3c [Timeout 0, FireOpen 0, DoSend (JString ''x''), DoClose]
              (snd (onclose_handler w3c 0 abnormal hasty))) = [(EvClose, None)]"
proof -
  have a: "code by_server = 4000 \<or>
           (\<not> wasConnected (sessions connected ! 0) \<and>
            timeouts (operation (sessions connected ! 0)) = [])"
    by (simp add: by_server_def)
  have b: "code abnormal = 4000 \<or>
           (\<not> wasConnected (sessions hasty ! 0) \<and> timeouts (operation (sessions hasty ! 0)) = [])"
    by (simp add: hasty_facts)
  let ?ins = "[Timeout 0, FireOpen 0, DoSend (JString ''x''), DoClose]"
  note A = terminal_close_on_4000_or_exhausted [OF connected_facts(1) a, of w3c]
  note B = terminal_close_on_4000_or_exhausted [OF hasty_facts(1) b, of w3c]
  from A have a1: "closed (snd (onclose_handler w3c 0 by_server connected))"
    and a2: "emitted (snd (onclose_handler w3c 0 by_server connected)) =
      emitted connected @ [(EvClose, None)]"
    by simp_all
  from A have "length (sockets (run w3c ?ins (snd (onclose_handler w3c 0 by_server connected)))) =
      length (sockets connected)"
    by blast
  then have a3: "length (sockets (run w3c ?ins (snd (onclose_handler w3c 0 by_server connected)))) = 1"
    by (simp add: connected_eq)
  from B have b1: "closed (snd (onclose_handler w3c 0 abnormal hasty))"
    and b2: "emitted (snd (onclose_handler w3c 0 abnormal hasty)) = emitted hasty @ [(EvClose, None)]"
    by simp_all
  from B have b3: "emitted (run w3c ?ins (snd (onclose_handler w3c 0 abnormal hasty))) =
      emitted (snd (onclose_handler w3c 0 abnormal hasty))"
    by blast
  have c: "code by_server = 4000" "code abnormal \<noteq> 4000"
    by (simp_all add: by_server_def abnormal_def)
  show ?thesis
    using a1 a2 a3 b1 b2 b3 c by (simp add: connected_facts hasty_facts)
qed

lemma run_closes:
  "closed t \<Longrightarrow>
   run env (replicate n DoClose) t = t\<lparr>trace := trace t @ replicate n (Log Debug ''close()'' [])\<rparr>"
proof (induction n arbitrary: t)
  case 0
  then show ?case by simp
next
  case (Suc n)
  have "closed (logger Debug ''close()'' [] t)" using Suc.prems by (simp add: logger_fields)
  from Suc.IH[OF this] Suc.prems show ?case
    by (simp add: close_closed logger_def replicate_app_Cons_same)
qed

text \<open>
  C7. After a first \<^verbatim>\<open>close()\<close>, a further call, whatever has happened in between,
  leaves every field of the transport as it was, emits nothing and throws nothing; it adds
  only the debug line that \<^verbatim>\<open>close\<close> hands to the logger before it tests the flag. So do
  any number of calls in a row. This holds also when the first call let an exception of a
  listener escape, since the flag was set before.
\<close>

theorem close_idempotent:
  "close env (run env ins (snd (close env t))) =
     (None,
      (run env ins (snd (close env t)))
        \<lparr>trace := trace (run env ins (snd (close env t))) @ [Log Debug ''close()'' []]\<rparr>) \<and>
   emitted (snd (close env (run env ins (snd (close env t))))) = emitted (snd (close env t)) \<and>
   run env (replicate n DoClose) (snd (close env t)) =
     (snd (close env t))
       \<lparr>trace := trace (snd (close env t)) @ replicate n (Log Debug ''close()'' [])\<rparr>"
proof -
  have c: "closed (snd (close env t))" by (rule close_frame(1))
  from closed_run[OF c, of env ins]
  have r: "closed (run env ins (snd (close env t)))"
    and e: "emitted (run env ins (snd (close env t))) = emitted (snd (close env t))"
    by simp_all
  show ?thesis
    by (simp add: close_closed[OF r] run_closes[OF c] logger_def emitted_append e)
qed

section \<open>Attempts\<close>

lemma emitted_updates:
  "emitted (t\<lparr>sessions := ss\<rparr>) = emitted t"
  "emitted (t\<lparr>sockets := so\<rparr>) = emitted t"
  "emitted (t\<lparr>closed := c\<rparr>) = emitted t"
  "emitted (t\<lparr>ws := w\<rparr>) = emitted t"
  "emitted (t\<lparr>listeners := ls\<rparr>) = emitted t"
  by (simp_all add: emitted_def)

lemma attempt_closed:
  "closed t \<Longrightarrow>
   attempt env k n t = set_operation k (operation_stop (operation (sessions t ! k))) t"
  by (simp add: attempt_def)

lemma attempt_open:
  assumes "\<not> closed t"
  shows "\<not> closed (attempt env k n t)"
    and "ws (attempt env k n t) = Some (length (sockets t))"
    and "sockets (attempt env k n t) =
           sockets t @ [\<lparr>onopen = Some k, onclose = Some k, onerror = Some k, onmessage = Some k,
                         impl = ws_new env (url t) '''' (origin (options t)) (headers (options t))
                                  (requestOptions (options t)) (clientConfig (options t))\<rparr>]"
    and "sessions (attempt env k n t) = sessions t"
    and "trace (attempt env k n t) =
           trace t @ [Log Debug ''_setWebSocket() [currentAttempt:%s]'' [ArgNat n],
                      NewSocket (length (sockets t)),
                      Assign (length (sockets t)) Onopen (Some k),
                      Assign (length (sockets t)) Onclose (Some k),
                      Assign (length (sockets t)) Onerror (Some k),
                      Assign (length (sockets t)) Onmessage (Some k)]"
  using assms by (simp_all add: attempt_def Let_def assign_def logger_def)

lemma attempt_fields:
  "closed (attempt env k n t) = closed t"
  "url (attempt env k n t) = url t"
  "options (attempt env k n t) = options t"
  "listeners (attempt env k n t) = listeners t"
  "length (sessions (attempt env k n t)) = length (sessions t)"
  "emitted (attempt env k n t) = emitted t"
  by (simp_all add: attempt_def Let_def assign_def logger_def set_operation_def emitted_def)

lemma attempt_current_socket:
  "\<not> closed t \<or> current_socket t \<noteq> None \<Longrightarrow> current_socket (attempt env k n t) \<noteq> None"
  by (cases "closed t")
     (auto simp: attempt_closed attempt_open current_socket_def set_operation_fields
       split: option.splits)

lemma setWebSocket_fields:
  "closed (setWebSocket env t) = closed t"
  "url (setWebSocket env t) = url t"
  "options (setWebSocket env t) = options t"
  "listeners (setWebSocket env t) = listeners t"
  "length (sessions (setWebSocket env t)) = Suc (length (sessions t))"
  "emitted (setWebSocket env t) = emitted t"
  by (simp_all add: setWebSocket_def Let_def attempt_fields emitted_updates)

lemma setWebSocket_open:
  assumes "\<not> closed t"
  shows "ws (setWebSocket env t) = Some (length (sockets t))"
    and "sockets (setWebSocket env t) =
           sockets t @ [\<lparr>onopen = Some (length (sessions t)), onclose = Some (length (sessions t)),
                         onerror = Some (length (sessions t)), onmessage = Some (length (sessions t)),
                         impl = ws_new env (url t) '''' (origin (options t)) (headers (options t))
                                  (requestOptions (options t)) (clientConfig (options t))\<rparr>]"
    and "sessions (setWebSocket env t) =
           sessions t @ [\<lparr>operation = retry_operation
                             (case retry (options t) of None \<Rightarrow> DEFAULT_RETRY_OPTIONS | Some r \<Rightarrow> r),
                          wasConnected = False\<rparr>]"
  using assms by (simp_all add: setWebSocket_def Let_def attempt_open)

lemma setWebSocket_closed:
  assumes "closed t"
  shows "ws (setWebSocket env t) = ws t"
    and "sockets (setWebSocket env t) = sockets t"
    and "sessions (setWebSocket env t) =
           sessions t @ [\<lparr>operation = operation_stop (retry_operation
                             (case retry (options t) of None \<Rightarrow> DEFAULT_RETRY_OPTIONS | Some r \<Rightarrow> r)),
                          wasConnected = False\<rparr>]"
    and "trace (setWebSocket env t) = trace t"
  using assms by (simp_all add: setWebSocket_def Let_def attempt_closed set_operation_def)

lemma setWebSocket_current_socket:
  "\<not> closed t \<or> current_socket t \<noteq> None \<Longrightarrow> current_socket (setWebSocket env t) \<noteq> None"
  by (cases "closed t")
     (auto simp: setWebSocket_open setWebSocket_closed current_socket_def split: option.splits)

lemma length_retry_operation: "length (timeouts (retry_operation opts)) = retries opts"
  by (simp add: retry_operation_def)

section \<open>Failed attempts are retried\<close>

lemma onclose_retry:
  assumes "\<not> closed t" and "\<not> wasConnected (sessions t ! k)" and "code event \<noteq> 4000"
    and "timeouts (operation (sessions t ! k)) = d # ds"
  shows "onclose_handler env k event t =
           (None,
            set_operation k
             ((operation (sessions t ! k))\<lparr>timeouts := ds,
                timers := timers (operation (sessions t ! k)) @ [d]\<rparr>)
             (logger Warn ''WebSocket close event [wasClean:%s, code:%s, reason:%s]''
                [ArgBool (wasClean event), ArgNat (code event), ArgStr (reason event)] t))"
  using assms by (simp add: onclose_handler_def Let_def logger_fields operation_retry_def)

lemma retry_round:
  assumes "\<not> closed t" and "k < length (sessions t)" and "\<not> wasConnected (sessions t ! k)"
    and "code event \<noteq> 4000" and "timeouts (operation (sessions t ! k)) = d # ds"
  shows "\<not> closed (timeout env k (snd (onclose_handler env k event t)))"
    and "length (sessions (timeout env k (snd (onclose_handler env k event t)))) = length (sessions t)"
    and "\<not> wasConnected (sessions (timeout env k (snd (onclose_handler env k event t))) ! k)"
    and "timeouts (operation (sessions (timeout env k (snd (onclose_handler env k event t))) ! k)) = ds"
    and "attempts (operation (sessions (timeout env k (snd (onclose_handler env k event t))) ! k)) =
           Suc (attempts (operation (sessions t ! k)))"
    and "emitted (timeout env k (snd (onclose_handler env k event t))) = emitted t"
    and "length (sockets (timeout env k (snd (onclose_handler env k event t)))) =
           Suc (length (sockets t))"
    and "ws (timeout env k (snd (onclose_handler env k event t))) = Some (length (sockets t))"
proof -
  let ?u = "snd (onclose_handler env k event t)"
  let ?rop = "operation (sessions t ! k)"
  have u: "?u = set_operation k (?rop\<lparr>timeouts := ds, timers := timers ?rop @ [d]\<rparr>)
             (logger Warn ''WebSocket close event [wasClean:%s, code:%s, reason:%s]''
                [ArgBool (wasClean event), ArgNat (code event), ArgStr (reason event)] t)"
    using assms by (simp add: onclose_retry)
  obtain x xs where tm: "timers ?rop @ [d] = x # xs" by (cases "timers ?rop") simp_all
  let ?v = "set_operation k (?rop\<lparr>timeouts := ds, attempts := Suc (attempts ?rop), timers := xs\<rparr>) ?u"
  have su: "sessions ?u ! k = (sessions t ! k)\<lparr>operation := ?rop\<lparr>timeouts := ds, timers := x # xs\<rparr>\<rparr>"
    using assms(2) tm by (simp add: u set_operation_def logger_def)
  have lu: "k < length (sessions ?u)" using assms(2) by (simp add: u set_operation_fields logger_fields)
  have tv: "timeout env k ?u = attempt env k (Suc (attempts ?rop)) ?v"
    using lu by (simp add: timeout_def su Let_def)
  have cv: "\<not> closed ?v" using assms(1) by (simp add: u set_operation_fields logger_fields)
  have sv: "sessions ?v ! k =
      (sessions t ! k)\<lparr>operation := ?rop\<lparr>timeouts := ds, attempts := Suc (attempts ?rop), timers := xs\<rparr>\<rparr>"
    using assms(2) by (simp add: u set_operation_def logger_def)
  have lv: "length (sessions ?v) = length (sessions t)"
    by (simp add: u set_operation_fields logger_fields)
  have sov: "sockets ?v = sockets t" by (simp add: u set_operation_fields logger_fields)
  have ev: "emitted ?v = emitted t" by (simp add: u set_operation_fields logger_fields)
  show "\<not> closed (timeout env k ?u)" using cv by (simp add: tv attempt_fields)
  show "length (sessions (timeout env k ?u)) = length (sessions t)"
    by (simp add: tv attempt_fields lv)
  show "\<not> wasConnected (sessions (timeout env k ?u) ! k)"
    using assms(3) by (simp add: tv attempt_open(4)[OF cv] sv)
  show "timeouts (operation (sessions (timeout env k ?u) ! k)) = ds"
    by (simp add: tv attempt_open(4)[OF cv] sv)
  show "attempts (operation (sessions (timeout env k ?u) ! k)) = Suc (attempts ?rop)"
    by (simp add: tv attempt_open(4)[OF cv] sv)
  show "emitted (timeout env k ?u) = emitted t" by (simp add: tv attempt_fields ev)
  show "length (sockets (timeout env k ?u)) = Suc (length (sockets t))"
    by (simp add: tv attempt_open(3)[OF cv] sov)
  show "ws (timeout env k ?u) = Some (length (sockets t))"
    by (simp add: tv attempt_open(2)[OF cv] sov)
qed

lemma failed_attempts_rounds:
  "\<not> closed t \<Longrightarrow> k < length (sessions t) \<Longrightarrow> \<not> wasConnected (sessions t ! k) \<Longrightarrow>
   \<forall>e \<in> set events. code e \<noteq> 4000 \<Longrightarrow>
   length events \<le> length (timeouts (operation (sessions t ! k))) \<Longrightarrow>
   \<not> closed (failed_attempts env k events t) \<and>
   emitted (failed_attempts env k events t) = emitted t \<and>
   length (sockets (failed_attempts env k events t)) = length (sockets t) + length events \<and>
   timeouts (operation (sessions (failed_attempts env k events t) ! k)) =
     drop (length events) (timeouts (operation (sessions t ! k))) \<and>
   attempts (operation (sessions (failed_attempts env k events t) ! k)) =
     attempts (operation (sessions t ! k)) + length events \<and>
   \<not> wasConnected (sessions (failed_attempts env k events t) ! k)"
proof (induction events arbitrary: t)
  case Nil
  then show ?case by simp
next
  case (Cons e es)
  from Cons.prems(5) obtain d ds where tm: "timeouts (operation (sessions t ! k)) = d # ds"
    by (cases "timeouts (operation (sessions t ! k))") simp_all
  from Cons.prems(4) have ce: "code e \<noteq> 4000" and ces: "\<forall>e \<in> set es. code e \<noteq> 4000"
    by simp_all
  note R = retry_round[OF Cons.prems(1) Cons.prems(2) Cons.prems(3) ce tm, of env]
  let ?u = "timeout env k (snd (onclose_handler env k e t))"
  have lk: "k < length (sessions ?u)" using R(2) Cons.prems(2) by simp
  have le: "length es \<le> length (timeouts (operation (sessions ?u ! k)))"
    using Cons.prems(5) tm R(4) by simp
  from Cons.IH[OF R(1) lk R(3) ces le] R tm show ?case by simp
qed

lemma fresh_facts:
  "\<not> closed fresh"
  "emitted fresh = []"
  "length (sessions fresh) = 1"
  "length (sockets fresh) = 1"
  "\<not> wasConnected (sessions fresh ! 0)"
  "operation (sessions fresh ! 0) =
     \<lparr>attempts = 1, timeouts = [1000, 2000, 4000, 8000, 8000, 8000, 8000, 8000, 8000, 8000],
      timers = []\<rparr>"
  by (simp_all add: fresh_eq emitted_def default_operation)

text \<open>
  C4. While session \<open>k\<close> has never opened, each close callback with a code other than 4000
  that finds a retry left in the budget schedules the next attempt (after the next backoff
  delay) and does nothing else; and over a whole run of such closes, each followed by the
  attempt it scheduled, as long as the budget lasts, the transport stays open for business,
  emits no event at all, and has made one new socket per close.
\<close>

theorem failed_attempts_are_retried:
  assumes "\<not> closed t" and "k < length (sessions t)" and "\<not> wasConnected (sessions t ! k)"
    and "code event \<noteq> 4000" and "\<forall>e \<in> set events. code e \<noteq> 4000"
    and "length events < length (timeouts (operation (sessions t ! k)))"
  shows "fst (onclose_handler env k event t) = None \<and>
         \<not> closed (snd (onclose_handler env k event t)) \<and>
         emitted (snd (onclose_handler env k event t)) = emitted t \<and>
         sockets (snd (onclose_handler env k event t)) = sockets t \<and>
         timers (operation (sessions (snd (onclose_handler env k event t)) ! k)) =
           timers (operation (sessions t ! k)) @ [hd (timeouts (operation (sessions t ! k)))] \<and>
         \<not> closed (failed_attempts env k (event # events) t) \<and>
         emitted (failed_attempts env k (event # events) t) = emitted t \<and>
         length (sockets (failed_attempts env k (event # events) t)) =
           length (sockets t) + Suc (length events) \<and>
         timeouts (operation (sessions (failed_attempts env k (event # events) t) ! k)) =
           drop (Suc (length events)) (timeouts (operation (sessions t ! k))) \<and>
         \<not> wasConnected (sessions (failed_attempts env k (event # events) t) ! k)"
proof -
  from assms(6) obtain d ds where tm: "timeouts (operation (sessions t ! k)) = d # ds"
    by (cases "timeouts (operation (sessions t ! k))") simp_all
  note u = onclose_retry[OF assms(1) assms(3) assms(4) tm, of env]
  have a: "fst (onclose_handler env k event t) = None"
    "\<not> closed (snd (onclose_handler env k event t))"
    "emitted (snd (onclose_handler env k event t)) = emitted t"
    "sockets (snd (onclose_handler env k event t)) = sockets t"
    using assms(1) by (simp_all add: u set_operation_fields logger_fields)
  have b: "timers (operation (sessions (snd (onclose_handler env k event t)) ! k)) =
      timers (operation (sessions t ! k)) @ [hd (timeouts (operation (sessions t ! k)))]"
    using assms(2) by (simp add: u tm set_operation_def logger_def)
  have ev: "\<forall>e \<in> set (event # events). code e \<noteq> 4000" using assms(4,5) by simp
  have le: "length (event # events) \<le> length (timeouts (operation (sessions t ! k)))"
    using assms(6) by simp
  from failed_attempts_rounds[OF assms(1) assms(2) assms(3) ev le, of env] a b
  show ?thesis by simp
qed

theorem failed_attempts_are_retried_witness:
  "\<not> closed fresh \<and> \<not> wasConnected (sessions fresh ! 0) \<and> code abnormal \<noteq> 4000 \<and>
   fst (onclose_handler w3c 0 abnormal fresh) = None \<and>
   timers (operation (sessions (snd (onclose_handler w3c 0 abnormal fresh)) ! 0)) = [1000] \<and>
   \<not> closed (failed_attempts w3c 0 [abnormal, abnormal, abnormal] fresh) \<and>
   emitted (failed_attempts w3c 0 [abnormal, abnormal, abnormal] fresh) = [] \<and>
   length (sockets (failed_attempts w3c 0 [abnormal, abnormal, abnormal] fresh)) = 4 \<and>
   timeouts (operation (sessions (failed_attempts w3c 0 [abnormal, abnormal, abnormal] fresh) ! 0)) =
     [8000, 8000, 8000, 8000, 8000, 8000, 8000]"
proof -
  have k: "0 < length (sessions fresh)" by (simp add: fresh_facts)
  have c: "code abnormal \<noteq> 4000" by (simp add: abnormal_def)
  have cs: "\<forall>e \<in> set [abnormal, abnormal]. code e \<noteq> 4000" by (simp add: abnormal_def)
  have l: "length [abnormal, abnormal] < length (timeouts (operation (sessions fresh ! 0)))"
    by (simp add: fresh_facts)
  from failed_attempts_are_retried [OF fresh_facts(1) k fresh_facts(5) c cs l, of w3c]
  show ?thesis using c by (simp add: fresh_facts)
qed

section \<open>Loss of an established connection\<close>

lemma quitter_eq:
  "quitter =
     \<lparr>url = ''wss://example.org'', options = empty_options, ws = Some 0, closed = False,
      listeners = (\<lambda>n. [])(EvDisconnected := [[CallClose]]),
      sockets = [\<lparr>onopen = Some 0, onclose = Some 0, onerror = Some 0, onmessage = Some 0,
                  impl = OPEN\<rparr>],
      sessions = [\<lparr>operation = retry_operation DEFAULT_RETRY_OPTIONS, wasConnected = True\<rparr>],
      trace = [Log Debug ''constructor() [url:%s, options:%o]''
                 [ArgStr ''wss://example.org'', ArgOptions None],
               Log Debug ''_setWebSocket() [currentAttempt:%s]'' [ArgNat 1], NewSocket 0,
               Assign 0 Onopen (Some 0), Assign 0 Onclose (Some 0),
               Assign 0 Onerror (Some 0), Assign 0 Onmessage (Some 0), Emit EvOpen None]\<rparr>"
  unfolding quitter_def by (rule opened_eq) simp

lemma quitter_facts:
  "\<not> closed quitter"
  "emitted quitter = [(EvOpen, None)]"
  "wasConnected (sessions quitter ! 0)"
  "length (sockets quitter) = 1"
  "listeners quitter EvDisconnected = [[CallClose]]"
  "length (sessions quitter) = 1"
  "listeners quitter EvClose = []"
  by (simp_all add: quitter_eq emitted_def)

lemma thrower_eq:
  "thrower =
     \<lparr>url = ''wss://example.org'', options = empty_options, ws = Some 0, closed = False,
      listeners = (\<lambda>n. [])(EvDisconnected := [[CallThrow listener_error]]),
      sockets = [\<lparr>onopen = Some 0, onclose = Some 0, onerror = Some 0, onmessage = Some 0,
                  impl = OPEN\<rparr>],
      sessions = [\<lparr>operation = retry_operation DEFAULT_RETRY_OPTIONS, wasConnected = True\<rparr>],
      trace = [Log Debug ''constructor() [url:%s, options:%o]''
                 [ArgStr ''wss://example.org'', ArgOptions None],
               Log Debug ''_setWebSocket() [currentAttempt:%s]'' [ArgNat 1], NewSocket 0,
               Assign 0 Onopen (Some 0), Assign 0 Onclose (Some 0),
               Assign 0 Onerror (Some 0), Assign 0 Onmessage (Some 0), Emit EvOpen None]\<rparr>"
  unfolding thrower_def by (rule opened_eq) simp

lemma thrower_facts:
  "\<not> closed thrower"
  "emitted thrower = [(EvOpen, None)]"
  "wasConnected (sessions thrower ! 0)"
  "length (sockets thrower) = 1"
  "listeners thrower EvDisconnected = [[CallThrow listener_error]]"
  "length (sessions thrower) = 1"
  "ws thrower = Some 0"
  by (simp_all add: thrower_eq emitted_def)

lemma timeouts_stop: "timeouts (operation_stop rop) = []"
  by (simp add: operation_stop_def)

lemma onclose_restart:
  assumes "\<not> closed t" and "wasConnected (sessions t ! k)" and "code event \<noteq> 4000"
  shows "onclose_handler env k event t =
           (let r = emit env EvDisconnected None
                      (set_operation k (operation_stop (operation (sessions t ! k)))
                         (logger Warn ''WebSocket close event [wasClean:%s, code:%s, reason:%s]''
                            [ArgBool (wasClean event), ArgNat (code event), ArgStr (reason event)]
                            t))
            in (fst r, if fst r = None then setWebSocket env (snd r) else snd r))"
  using assms
  by (simp add: onclose_handler_def Let_def logger_fields split: prod.splits option.splits)

lemma setWebSocket_sessions:
  "sessions (setWebSocket env t) =
     sessions t @
       [\<lparr>operation =
           (if closed t
            then operation_stop (retry_operation
                   (case retry (options t) of None \<Rightarrow> DEFAULT_RETRY_OPTIONS | Some r \<Rightarrow> r))
            else retry_operation
                   (case retry (options t) of None \<Rightarrow> DEFAULT_RETRY_OPTIONS | Some r \<Rightarrow> r)),
         wasConnected = False\<rparr>]"
  by (cases "closed t") (simp_all add: setWebSocket_open setWebSocket_closed)

text \<open>
  What the close callback does on the loss of an established connection, in every case.
  \<open>r\<close> is the emission of \<open>disconnected\<close> on the state \<open>s\<close> in which the operation has been
  stopped.
\<close>

lemma connection_lost:
  assumes "\<not> closed t" and "k < length (sessions t)" and "wasConnected (sessions t ! k)"
    and "code event \<noteq> 4000"
  shows "timeouts (operation (sessions (snd (onclose_handler env k event t)) ! k)) = []"
    and "emitted (snd (onclose_handler env k event t)) =
           emitted t @ (EvDisconnected, None) #
             (if CallClose \<in> set (reached (concat (listeners t EvDisconnected)))
              then [(EvClose, None)] else [])"
    and "closed (snd (onclose_handler env k event t)) =
           (CallClose \<in> set (reached (concat (listeners t EvDisconnected))))"
    and "CallClose \<notin> set (concat (listeners t EvDisconnected)) \<Longrightarrow>
           fst (onclose_handler env k event t) = thrown (concat (listeners t EvDisconnected))"
    and "fst (onclose_handler env k event t) \<noteq> None \<Longrightarrow>
           length (sessions (snd (onclose_handler env k event t))) = length (sessions t) \<and>
           length (sockets (snd (onclose_handler env k event t))) = length (sockets t) \<and>
           ws (snd (onclose_handler env k event t)) = ws t"
    and "fst (onclose_handler env k event t) = None \<Longrightarrow>
           sessions (snd (onclose_handler env k event t)) ! length (sessions t) =
             \<lparr>operation =
                (if CallClose \<in> set (reached (concat (listeners t EvDisconnected)))
                 then operation_stop (retry_operation
                        (case retry (options t) of None \<Rightarrow> DEFAULT_RETRY_OPTIONS | Some r \<Rightarrow> r))
                 else retry_operation
                        (case retry (options t) of None \<Rightarrow> DEFAULT_RETRY_OPTIONS | Some r \<Rightarrow> r)),
              wasConnected = False\<rparr> \<and>
           length (sessions (snd (onclose_handler env k event t))) = Suc (length (sessions t))"
    and "fst (onclose_handler env k event t) = None \<Longrightarrow>
         CallClose \<notin> set (concat (listeners t EvDisconnected)) \<Longrightarrow>
           length (sockets (snd (onclose_handler env k event t))) = Suc (length (sockets t)) \<and>
           ws (snd (onclose_handler env k event t)) = Some (length (sockets t)) \<and>
           onopen (sockets (snd (onclose_handler env k event t)) ! length (sockets t)) =
             Some (length (sessions t)) \<and>
           onclose (sockets (snd (onclose_handler env k event t)) ! length (sockets t)) =
             Some (length (sessions t)) \<and>
           onerror (sockets (snd (onclose_handler env k event t)) ! length (sockets t)) =
             Some (length (sessions t)) \<and>
           onmessage (sockets (snd (onclose_handler env k event t)) ! length (sockets t)) =
             Some (length (sessions t))"
proof -
  let ?cs = "concat (listeners t EvDisconnected)"
  let ?s = "set_operation k (operation_stop (operation (sessions t ! k)))
              (logger Warn ''WebSocket close event [wasClean:%s, code:%s, reason:%s]''
                 [ArgBool (wasClean event), ArgNat (code event), ArgStr (reason event)] t)"
  let ?r = "emit env EvDisconnected None ?s"
  let ?H = "onclose_handler env k event t"
  have h: "?H = (fst ?r, if fst ?r = None then setWebSocket env (snd ?r) else snd ?r)"
    using onclose_restart[OF assms(1) assms(3) assms(4), of env] by (simp add: Let_def)
  have ls: "listeners ?s = listeners t" by (simp add: set_operation_fields logger_fields)
  have cs: "closed ?s = False" using assms(1) by (simp add: set_operation_fields logger_fields)
  have cr: "closed (snd ?r) = (CallClose \<in> set (reached ?cs))"
    by (simp add: emit_frame ls cs)
  have er: "emitted (snd ?r) =
      emitted t @ (EvDisconnected, None) #
        (if CallClose \<in> set (reached ?cs) then [(EvClose, None)] else [])"
    using assms(1) by (simp add: emit_frame ls set_operation_fields logger_fields)
  have sr: "sessions (snd ?r) = (sessions t)[k := (sessions t ! k)\<lparr>operation :=
              operation_stop (operation (sessions t ! k))\<rparr>]"
    by (simp add: emit_frame set_operation_def logger_def)
  have lsr: "length (sessions (snd ?r)) = length (sessions t)" by (simp add: sr)
  have lor: "length (sockets (snd ?r)) = length (sockets t)"
    by (simp add: emit_frame set_operation_fields logger_fields)
  have wr: "ws (snd ?r) = ws t" by (simp add: emit_frame set_operation_fields logger_fields)
  have opr: "options (snd ?r) = options t"
    by (simp add: emit_frame set_operation_fields logger_fields)
  have old: "timeouts (operation (sessions (snd ?r) ! k)) = []"
    using assms(2) by (simp add: sr timeouts_stop)
  show "timeouts (operation (sessions (snd ?H) ! k)) = []"
    using assms(2) old by (simp add: h setWebSocket_sessions nth_append lsr)
  show "emitted (snd ?H) =
      emitted t @ (EvDisconnected, None) #
        (if CallClose \<in> set (reached ?cs) then [(EvClose, None)] else [])"
    using er by (simp add: h setWebSocket_fields)
  show "closed (snd ?H) = (CallClose \<in> set (reached ?cs))"
    using cr by (simp add: h setWebSocket_fields)
  show "fst ?H = thrown ?cs" if "CallClose \<notin> set ?cs"
    using that by (simp add: h emit_throws ls)
  show "length (sessions (snd ?H)) = length (sessions t) \<and>
      length (sockets (snd ?H)) = length (sockets t) \<and> ws (snd ?H) = ws t"
    if "fst ?H \<noteq> None"
  proof -
    from that have "fst ?r \<noteq> None" by (simp add: h)
    then have "snd ?H = snd ?r" by (simp add: h del: not_None_eq)
    with lsr lor wr show ?thesis by simp
  qed
  show "sessions (snd ?H) ! length (sessions t) =
      \<lparr>operation =
         (if CallClose \<in> set (reached ?cs)
          then operation_stop (retry_operation
                 (case retry (options t) of None \<Rightarrow> DEFAULT_RETRY_OPTIONS | Some r \<Rightarrow> r))
          else retry_operation
                 (case retry (options t) of None \<Rightarrow> DEFAULT_RETRY_OPTIONS | Some r \<Rightarrow> r)),
       wasConnected = False\<rparr> \<and>
      length (sessions (snd ?H)) = Suc (length (sessions t))"
    if "fst ?H = None"
  proof -
    from that have n: "fst ?r = None" by (simp add: h)
    have "snd ?H = setWebSocket env (snd ?r)" using n by (simp add: h)
    then show ?thesis
      by (simp add: setWebSocket_sessions nth_append lsr cr opr)
  qed
  show "length (sockets (snd ?H)) = Suc (length (sockets t)) \<and>
      ws (snd ?H) = Some (length (sockets t)) \<and>
      onopen (sockets (snd ?H) ! length (sockets t)) = Some (length (sessions t)) \<and>
      onclose (sockets (snd ?H) ! length (sockets t)) = Some (length (sessions t)) \<and>
      onerror (sockets (snd ?H) ! length (sockets t)) = Some (length (sessions t)) \<and>
      onmessage (sockets (snd ?H) ! length (sockets t)) = Some (length (sessions t))"
    if "fst ?H = None" and "CallClose \<notin> set ?cs"
  proof -
    from that(1) have n: "fst ?r = None" by (simp add: h)
    have H: "snd ?H = setWebSocket env (snd ?r)" using n by (simp add: h)
    from that(2) reached_subset[of ?cs] have "CallClose \<notin> set (reached ?cs)" by blast
    with cr have c: "\<not> closed (snd ?r)" by simp
    note W = setWebSocket_open[OF c, of env]
    show ?thesis
      by (simp add: H W nth_append lor lsr)
  qed
qed

text \<open>
  C3 as stated fails, in two ways. When a listener of \<open>disconnected\<close> calls \<^verbatim>\<open>close()\<close>
  (\<open>quitter\<close>), the close callback leaves the transport closed, \<open>close\<close> has been emitted,
  no socket has been made and the operation of the new session is stopped. When a listener
  of \<open>disconnected\<close> throws (\<open>thrower\<close>), the exception escapes the callback before
  \<^verbatim>\<open>_setWebSocket()\<close> is reached: no new session and no new socket come into being,
  although the transport is not closed.
\<close>

theorem disconnected_listener_may_close_or_throw:
  "\<not> closed quitter \<and> wasConnected (sessions quitter ! 0) \<and> code abnormal \<noteq> 4000 \<and>
   closed (snd (onclose_handler w3c 0 abnormal quitter)) \<and>
   emitted (snd (onclose_handler w3c 0 abnormal quitter)) =
     [(EvOpen, None), (EvDisconnected, None), (EvClose, None)] \<and>
   length (sockets (snd (onclose_handler w3c 0 abnormal quitter))) = length (sockets quitter) \<and>
   timeouts (operation (sessions (snd (onclose_handler w3c 0 abnormal quitter)) ! 1)) = [] \<and>
   \<not> closed thrower \<and> wasConnected (sessions thrower ! 0) \<and>
   fst (onclose_handler w3c 0 abnormal thrower) = Some listener_error \<and>
   \<not> closed (snd (onclose_handler w3c 0 abnormal thrower)) \<and>
   emitted (snd (onclose_handler w3c 0 abnormal thrower)) = [(EvOpen, None), (EvDisconnected, None)] \<and>
   length (sessions (snd (onclose_handler w3c 0 abnormal thrower))) = length (sessions thrower) \<and>
   length (sockets (snd (onclose_handler w3c 0 abnormal thrower))) = length (sockets thrower) \<and>
   ws (snd (onclose_handler w3c 0 abnormal thrower)) = ws thrower"
proof -
  have c: "code abnormal \<noteq> 4000" by (simp add: abnormal_def)
  have kq: "0 < length (sessions quitter)" and kt: "0 < length (sessions thrower)"
    by (simp_all add: quitter_facts thrower_facts)
  note Q = connection_lost[OF quitter_facts(1) kq quitter_facts(3) c, of w3c]
  note T = connection_lost[OF thrower_facts(1) kt thrower_facts(3) c, of w3c]
  have rq: "reached (concat (listeners quitter EvDisconnected)) = [CallClose]"
    by (simp add: quitter_facts)
  have rt: "reached (concat (listeners thrower EvDisconnected)) = []"
    "thrown (concat (listeners thrower EvDisconnected)) = Some listener_error"
    "CallClose \<notin> set (concat (listeners thrower EvDisconnected))"
    by (simp_all add: thrower_facts)
  have q1: "closed (snd (onclose_handler w3c 0 abnormal quitter))"
    by (simp add: Q(3) rq)
  have q2: "emitted (snd (onclose_handler w3c 0 abnormal quitter)) =
      [(EvOpen, None), (EvDisconnected, None), (EvClose, None)]"
    by (simp add: Q(2) rq quitter_facts)
  have qn: "fst (onclose_handler w3c 0 abnormal quitter) = None"
  proof -
    let ?s = "set_operation 0 (operation_stop (operation (sessions quitter ! 0)))
                (logger Warn ''WebSocket close event [wasClean:%s, code:%s, reason:%s]''
                   [ArgBool (wasClean abnormal), ArgNat (code abnormal), ArgStr (reason abnormal)]
                   quitter)"
    have ns: "\<not> closed ?s" "listeners ?s EvClose = []"
      "listeners ?s EvDisconnected = [[CallClose]]"
      by (simp_all add: set_operation_fields logger_fields quitter_facts)
    have "fst (close w3c (?s\<lparr>trace := trace ?s @ [Emit EvDisconnected None]\<rparr>)) = None"
      using ns by (simp add: close_unfold Let_def emit_close_closed logger_fields
          split: option.splits)
    then have "fst (emit w3c EvDisconnected None ?s) = None"
      using ns(3)
      by (cases "close w3c (?s\<lparr>trace := trace ?s @ [Emit EvDisconnected None]\<rparr>)")
        (simp_all add: emit_def emit_with_def)
    then show ?thesis
      by (simp add: onclose_restart[OF quitter_facts(1) quitter_facts(3) c] Let_def)
  qed
  have q3: "length (sockets (snd (onclose_handler w3c 0 abnormal quitter))) = length (sockets quitter)"
  proof -
    let ?s = "set_operation 0 (operation_stop (operation (sessions quitter ! 0)))
                (logger Warn ''WebSocket close event [wasClean:%s, code:%s, reason:%s]''
                   [ArgBool (wasClean abnormal), ArgNat (code abnormal), ArgStr (reason abnormal)]
                   quitter)"
    let ?r = "emit w3c EvDisconnected None ?s"
    have h: "onclose_handler w3c 0 abnormal quitter =
        (fst ?r, if fst ?r = None then setWebSocket w3c (snd ?r) else snd ?r)"
      using onclose_restart[OF quitter_facts(1) quitter_facts(3) c, of w3c]
      by (simp add: Let_def)
    have cr: "closed (snd ?r)"
      by (simp add: emit_frame set_operation_fields logger_fields quitter_facts)
    have "length (sockets (snd ?r)) = length (sockets quitter)"
      by (simp add: emit_frame set_operation_fields logger_fields)
    then show ?thesis by (simp add: h setWebSocket_closed(2)[OF cr])
  qed
  have q4: "timeouts (operation (sessions (snd (onclose_handler w3c 0 abnormal quitter)) ! 1)) = []"
    using Q(6)[OF qn] by (simp add: rq quitter_facts timeouts_stop)
  have t0: "fst (onclose_handler w3c 0 abnormal thrower) = Some listener_error"
    using T(4)[OF rt(3)] by (simp add: rt)
  then have tn: "fst (onclose_handler w3c 0 abnormal thrower) \<noteq> None" by simp
  have t1: "\<not> closed (snd (onclose_handler w3c 0 abnormal thrower))"
    by (simp add: T(3) rt)
  have t2: "emitted (snd (onclose_handler w3c 0 abnormal thrower)) =
      [(EvOpen, None), (EvDisconnected, None)]"
    by (simp add: T(2) rt thrower_facts)
  note t3 = T(5)[OF tn]
  show ?thesis
    using c q1 q2 q3 q4 t0 t1 t2 t3 by (simp add: quitter_facts thrower_facts)
qed

text \<open>
  C3, as the code has it. A close callback with a code other than 4000, on a transport
  that is not closed and whose session \<open>k\<close> has opened, stops the operation of that
  session and emits \<open>disconnected\<close> exactly once. The transport is closed afterwards, and
  \<open>close\<close> has been emitted, if and only if a listener of \<open>disconnected\<close> called \<^verbatim>\<open>close()\<close>
  (before any listener threw). If an exception of a listener escapes the emission, the
  callback ends there: no session and no socket is added. Otherwise a new session starts,
  which has not opened yet. When no listener of \<open>disconnected\<close> throws or calls
  \<^verbatim>\<open>close()\<close>, no exception escapes, the transport is not closed, \<open>disconnected\<close> is the
  only event, the operation of the new session has the full configured budget, and its
  first attempt has made a new current socket carrying the new session's callbacks.
\<close>

theorem established_connection_lost:
  assumes "\<not> closed t" and "k < length (sessions t)" and "wasConnected (sessions t ! k)"
    and "code event \<noteq> 4000"
  shows
    "let H = onclose_handler env k event t;
         cs = concat (listeners t EvDisconnected);
         cfg = (case retry (options t) of None \<Rightarrow> DEFAULT_RETRY_OPTIONS | Some r \<Rightarrow> r);
         n = length (sessions t);
         i = length (sockets t)
     in timeouts (operation (sessions (snd H) ! k)) = [] \<and>
        emitted (snd H) =
          emitted t @ (EvDisconnected, None) #
            (if CallClose \<in> set (reached cs) then [(EvClose, None)] else []) \<and>
        closed (snd H) = (CallClose \<in> set (reached cs)) \<and>
        (CallClose \<notin> set cs \<longrightarrow> fst H = thrown cs) \<and>
        (fst H \<noteq> None \<longrightarrow>
           length (sessions (snd H)) = n \<and> length (sockets (snd H)) = i \<and> ws (snd H) = ws t) \<and>
        (fst H = None \<longrightarrow>
           length (sessions (snd H)) = Suc n \<and> \<not> wasConnected (sessions (snd H) ! n)) \<and>
        (thrown cs = None \<and> CallClose \<notin> set cs \<longrightarrow>
           fst H = None \<and> \<not> closed (snd H) \<and>
           emitted (snd H) = emitted t @ [(EvDisconnected, None)] \<and>
           sessions (snd H) ! n = \<lparr>operation = retry_operation cfg, wasConnected = False\<rparr> \<and>
           length (timeouts (operation (sessions (snd H) ! n))) = retries cfg \<and>
           length (sockets (snd H)) = Suc i \<and>
           ws (snd H) = Some i \<and>
           onopen (sockets (snd H) ! i) = Some n \<and>
           onclose (sockets (snd H) ! i) = Some n \<and>
           onerror (sockets (snd H) ! i) = Some n \<and>
           onmessage (sockets (snd H) ! i) = Some n)"
proof -
  let ?H = "onclose_handler env k event t"
  let ?cs = "concat (listeners t EvDisconnected)"
  note L = connection_lost[OF assms, of env]
  have 4: "CallClose \<notin> set ?cs \<longrightarrow> fst ?H = thrown ?cs" using L(4) by blast
  have 5: "fst ?H \<noteq> None \<longrightarrow>
      length (sessions (snd ?H)) = length (sessions t) \<and>
      length (sockets (snd ?H)) = length (sockets t) \<and> ws (snd ?H) = ws t"
    using L(5) by blast
  have 6: "fst ?H = None \<longrightarrow>
      length (sessions (snd ?H)) = Suc (length (sessions t)) \<and>
      \<not> wasConnected (sessions (snd ?H) ! length (sessions t))"
  proof
    assume n: "fst ?H = None"
    from L(6)[OF n] show "length (sessions (snd ?H)) = Suc (length (sessions t)) \<and>
      \<not> wasConnected (sessions (snd ?H) ! length (sessions t))"
      by simp
  qed
  have 7: "thrown ?cs = None \<and> CallClose \<notin> set ?cs \<longrightarrow>
      fst ?H = None \<and> \<not> closed (snd ?H) \<and>
      emitted (snd ?H) = emitted t @ [(EvDisconnected, None)] \<and>
      sessions (snd ?H) ! length (sessions t) =
        \<lparr>operation = retry_operation
           (case retry (options t) of None \<Rightarrow> DEFAULT_RETRY_OPTIONS | Some r \<Rightarrow> r),
         wasConnected = False\<rparr> \<and>
      length (timeouts (operation (sessions (snd ?H) ! length (sessions t)))) =
        retries (case retry (options t) of None \<Rightarrow> DEFAULT_RETRY_OPTIONS | Some r \<Rightarrow> r) \<and>
      length (sockets (snd ?H)) = Suc (length (sockets t)) \<and>
      ws (snd ?H) = Some (length (sockets t)) \<and>
      onopen (sockets (snd ?H) ! length (sockets t)) = Some (length (sessions t)) \<and>
      onclose (sockets (snd ?H) ! length (sockets t)) = Some (length (sessions t)) \<and>
      onerror (sockets (snd ?H) ! length (sockets t)) = Some (length (sessions t)) \<and>
      onmessage (sockets (snd ?H) ! length (sockets t)) = Some (length (sessions t))"
  proof
    assume a: "thrown ?cs = None \<and> CallClose \<notin> set ?cs"
    then have nc: "CallClose \<notin> set ?cs" and nt: "thrown ?cs = None" by simp_all
    from nc reached_subset[of ?cs] have nr: "CallClose \<notin> set (reached ?cs)" by blast
    have n: "fst ?H = None" using L(4)[OF nc] nt by simp
    from L(2) L(3) L(6)[OF n] L(7)[OF n nc] n nr
    show "fst ?H = None \<and> \<not> closed (snd ?H) \<and>
      emitted (snd ?H) = emitted t @ [(EvDisconnected, None)] \<and>
      sessions (snd ?H) ! length (sessions t) =
        \<lparr>operation = retry_operation
           (case retry (options t) of None \<Rightarrow> DEFAULT_RETRY_OPTIONS | Some r \<Rightarrow> r),
         wasConnected = False\<rparr> \<and>
      length (timeouts (operation (sessions (snd ?H) ! length (sessions t)))) =
        retries (case retry (options t) of None \<Rightarrow> DEFAULT_RETRY_OPTIONS | Some r \<Rightarrow> r) \<and>
      length (sockets (snd ?H)) = Suc (length (sockets t)) \<and>
      ws (snd ?H) = Some (length (sockets t)) \<and>
      onopen (sockets (snd ?H) ! length (sockets t)) = Some (length (sessions t)) \<and>
      onclose (sockets (snd ?H) ! length (sockets t)) = Some (length (sessions t)) \<and>
      onerror (sockets (snd ?H) ! length (sockets t)) = Some (length (sessions t)) \<and>
      onmessage (sockets (snd ?H) ! length (sockets t)) = Some (length (sessions t))"
      by (simp add: length_retry_operation)
  qed
  show ?thesis
    unfolding Let_def using L(1) L(2) L(3) 4 5 6 7 by (intro conjI)
qed

theorem established_connection_lost_witness:
  "\<not> closed connected \<and> wasConnected (sessions connected ! 0) \<and> code abnormal \<noteq> 4000 \<and>
   listeners connected EvDisconnected = [] \<and>
   fst (onclose_handler w3c 0 abnormal connected) = None \<and>
   \<not> closed (snd (onclose_handler w3c 0 abnormal connected)) \<and>
   emitted (snd (onclose_handler w3c 0 abnormal connected)) =
     [(EvOpen, None), (EvDisconnected, None)] \<and>
   timeouts (operation (sessions (snd (onclose_handler w3c 0 abnormal connected)) ! 0)) = [] \<and>
   length (timeouts (operation (sessions (snd (onclose_handler w3c 0 abnormal connected)) ! 1))) = 10 \<and>
   ws (snd (onclose_handler w3c 0 abnormal connected)) = Some 1 \<and>
   onclose (sockets (snd (onclose_handler w3c 0 abnormal connected)) ! 1) = Some 1"
proof -
  have k: "0 < length (sessions connected)" by (simp add: connected_eq)
  have c: "code abnormal \<noteq> 4000" by (simp add: abnormal_def)
  have l: "listeners connected EvDisconnected = []" by (simp add: connected_eq)
  have f: "length (sessions connected) = 1" "length (sockets connected) = 1"
    "retry (options connected) = None"
    by (simp_all add: connected_eq empty_options_def)
  from established_connection_lost [OF connected_facts(1) k connected_facts(4) c, of w3c]
  show ?thesis using c l
    by (simp add: Let_def connected_facts f DEFAULT_RETRY_OPTIONS_def length_retry_operation)
qed

section \<open>The socket reference\<close>

lemma current_socket_cong:
  "ws t' = ws t \<Longrightarrow> length (sockets t') = length (sockets t) \<Longrightarrow>
   current_socket t' = current_socket t"
  by (simp add: current_socket_def split: option.splits)

lemma set_wasConnected_fields:
  "closed (set_wasConnected k b t) = closed t"
  "ws (set_wasConnected k b t) = ws t"
  "url (set_wasConnected k b t) = url t"
  "options (set_wasConnected k b t) = options t"
  "listeners (set_wasConnected k b t) = listeners t"
  "sockets (set_wasConnected k b t) = sockets t"
  "length (sessions (set_wasConnected k b t)) = length (sessions t)"
  "trace (set_wasConnected k b t) = trace t"
  "emitted (set_wasConnected k b t) = emitted t"
  by (simp_all add: set_wasConnected_def emitted_def)

lemma emit_current_socket: "current_socket (snd (emit env n x t)) = current_socket t"
  by (rule current_socket_cong) (simp_all add: emit_frame)

lemma onopen_current_socket:
  "current_socket (snd (onopen_handler env k t)) = current_socket t"
proof (cases "closed t")
  case True
  then show ?thesis by (simp add: onopen_handler_def)
next
  case False
  have "current_socket (set_wasConnected k True t) = current_socket t"
    by (rule current_socket_cong) (simp_all add: set_wasConnected_fields)
  with False show ?thesis by (simp add: onopen_handler_def emit_current_socket)
qed

lemma onerror_current_socket:
  "current_socket (snd (onerror_handler env k t)) = current_socket t"
  by (simp add: onerror_handler_def logger_fields)

lemma onmessage_current_socket:
  "current_socket (snd (onmessage_handler env k raw t)) = current_socket t"
  by (simp add: onmessage_handler_def logger_fields emit_current_socket split: option.splits)

lemma onclose_current_socket:
  assumes "\<exists>i. current_socket t = Some i"
  shows "\<exists>i. current_socket (snd (onclose_handler env k event t)) = Some i"
proof (cases "closed t")
  case True
  with assms show ?thesis by (simp add: onclose_handler_def)
next
  case False
  let ?t1 = "logger Warn ''WebSocket close event [wasClean:%s, code:%s, reason:%s]''
               [ArgBool (wasClean event), ArgNat (code event), ArgStr (reason event)] t"
  have tc: "\<And>u. current_socket (snd (terminal_close env u)) = current_socket u"
    by (rule current_socket_cong) (simp_all add: terminal_close_fields)
  have so: "\<And>rop u. current_socket (set_operation k rop u) = current_socket u"
    by (rule current_socket_cong) (simp_all add: set_operation_fields)
  have sw: "\<And>u. \<exists>i. current_socket u = Some i \<Longrightarrow>
      \<exists>i. current_socket (setWebSocket env u) = Some i"
    using setWebSocket_current_socket by fastforce
  show ?thesis
  proof (cases "code event = 4000")
    case True
    with False assms show ?thesis by (simp add: onclose_handler_def Let_def tc logger_fields)
  next
    case c: False
    show ?thesis
    proof (cases "wasConnected (sessions t ! k)")
      case True
      let ?r = "emit env EvDisconnected None
                  (set_operation k (operation_stop (operation (sessions t ! k))) ?t1)"
      have r: "\<exists>i. current_socket (snd ?r) = Some i"
        using assms by (simp add: emit_current_socket so logger_fields)
      have "snd (onclose_handler env k event t) =
          (if fst ?r = None then setWebSocket env (snd ?r) else snd ?r)"
        using onclose_restart[OF False True c, of env] by (simp add: Let_def)
      with r sw[OF r] show ?thesis by (simp del: not_None_eq)
    next
      case nw: False
      show ?thesis
      proof (cases "timeouts (operation (sessions t ! k))")
        case Nil
        with False nw have "onclose_handler env k event t = terminal_close env ?t1"
          by (simp add: onclose_handler_def Let_def logger_fields operation_retry_def
              set_operation_def logger_def)
        with assms show ?thesis by (simp add: tc logger_fields)
      next
        case (Cons d ds)
        from onclose_retry[OF False nw c Cons, of env] assms show ?thesis
          by (simp add: so logger_fields)
      qed
    qed
  qed
qed

lemma step_current_socket:
  assumes "\<exists>i. current_socket t = Some i"
  shows "\<exists>i. current_socket (step env x t) = Some i"
proof -
  have fi: "\<And>i sl. current_socket (fire env i sl t) = current_socket t"
    by (rule current_socket_cong) (simp_all add: fire_def set_impl_fields)
  show ?thesis
  proof (cases x)
    case (FireOpen i)
    with assms fi show ?thesis
      by (simp add: Let_def onopen_current_socket split: option.splits)
  next
    case (FireClose i event)
    have "\<And>k. \<exists>j. current_socket (snd (onclose_handler env k event (fire env i Onclose t))) = Some j"
      by (rule onclose_current_socket) (simp add: fi assms)
    with FireClose assms fi show ?thesis
      by (simp add: Let_def split: option.splits)
  next
    case (FireError i)
    with assms fi show ?thesis
      by (simp add: Let_def onerror_current_socket split: option.splits)
  next
    case (FireMessage i raw)
    with assms fi show ?thesis
      by (simp add: Let_def onmessage_current_socket split: option.splits)
  next
    case (Timeout k)
    have "\<And>rop. current_socket (set_operation k rop t) = current_socket t"
      by (rule current_socket_cong) (simp_all add: set_operation_fields)
    then have "\<And>rop n. \<exists>i. current_socket (attempt env k n (set_operation k rop t)) = Some i"
      using attempt_current_socket[of _ env k] assms by fastforce
    with assms Timeout show ?thesis
      by (simp add: timeout_def Let_def split: list.splits)
  next
    case (DoSend m)
    with assms show ?thesis by (simp add: send_current_socket)
  next
    case DoClose
    have "current_socket (snd (close env t)) = current_socket t"
      by (rule current_socket_cong) (simp_all add: close_frame)
    with assms DoClose show ?thesis by simp
  next
    case (On n l)
    have "current_socket (t\<lparr>listeners := (listeners t)(n := listeners t n @ [l])\<rparr>) = current_socket t"
      by (rule current_socket_cong) simp_all
    with assms On show ?thesis by simp
  qed
qed

lemma run_current_socket:
  "\<exists>i. current_socket t = Some i \<Longrightarrow> \<exists>i. current_socket (run env ins t) = Some i"
proof (induction ins arbitrary: t)
  case Nil
  then show ?case by simp
next
  case (Cons x xs)
  from Cons.IH[OF step_current_socket[OF Cons.prems, of env x]] show ?case by simp
qed

lemma constructor_socket:
  "ws (constructor env u opts) = Some 0"
  "length (sockets (constructor env u opts)) = 1"
  "\<not> closed (constructor env u opts)"
  by (simp_all add: constructor_def setWebSocket_open setWebSocket_fields)

text \<open>
  C10. Construction runs the first attempt before it returns, so the new transport
  refers to a socket; and from then on, whatever callbacks, timers and public calls follow,
  \<^verbatim>\<open>_ws\<close> refers to a socket: the branch of \<^verbatim>\<open>send\<close> and of \<^verbatim>\<open>close\<close> that models the
  dereference of \<^verbatim>\<open>null\<close> is never taken.
\<close>

theorem socket_reference_never_null:
  "ws (constructor env u opts) = Some 0 \<and>
   length (sockets (constructor env u opts)) = 1 \<and>
   (\<exists>i. ws (run env ins (constructor env u opts)) = Some i \<and>
        i < length (sockets (run env ins (constructor env u opts))) \<and>
        current_socket (run env ins (constructor env u opts)) = Some i)"
proof -
  have "\<exists>i. current_socket (constructor env u opts) = Some i"
    by (simp add: current_socket_def constructor_socket)
  then have "\<exists>i. current_socket (run env ins (constructor env u opts)) = Some i"
    by (rule run_current_socket)
  then show ?thesis
    by (auto simp: constructor_socket current_socket_def split: option.splits if_splits)
qed

section \<open>Inbound messages\<close>

text \<open>
  C8. On a transport that is not closed, the message callback does one of three things.
  A payload that does not parse leaves the state as it was: no event, no log line, no
  exception. A payload that parses while no \<open>message\<close> listener is registered adds one
  error line to the log and nothing else. Otherwise \<open>message\<close> is emitted once, carrying
  the parsed value (followed by \<open>close\<close> only if a listener closes the transport). So the
  \<open>message\<close> events grow by exactly the parsed value when the payload parses and a listener
  is registered, and not at all otherwise.
\<close>

theorem inbound_message:
  assumes "\<not> closed t"
  shows "(case parse env raw of
            None \<Rightarrow> onmessage_handler env k raw t = (None, t)
          | Some m \<Rightarrow>
              if listeners t EvMessage = []
              then onmessage_handler env k raw t =
                     (None,
                      logger Err
                        ''no listeners for WebSocket message event, ignoring received message''
                        [] t)
              else emitted (snd (onmessage_handler env k raw t)) =
                     emitted t @ (EvMessage, Some m) #
                       (if CallClose \<in> set (reached (concat (listeners t EvMessage)))
                        then [(EvClose, None)] else [])) \<and>
         filter (\<lambda>e. fst e = EvMessage) (emitted (snd (onmessage_handler env k raw t))) =
           filter (\<lambda>e. fst e = EvMessage) (emitted t) @
             (case parse env raw of
                None \<Rightarrow> []
              | Some m \<Rightarrow> if listeners t EvMessage = [] then [] else [(EvMessage, Some m)])"
  using assms
  by (simp add: onmessage_handler_def logger_fields emit_frame split: option.splits)

theorem inbound_message_witness:
  "\<not> closed connected \<and> \<not> closed fresh \<and>
   onmessage_handler w3c 0 '''' connected = (None, connected) \<and>
   emitted (snd (onmessage_handler w3c 0 ''ping'' connected)) =
     [(EvOpen, None), (EvMessage, Some (JString ''ping''))] \<and>
   trace (snd (onmessage_handler w3c 0 ''ping'' fresh)) =
     trace fresh @
       [Log Err ''no listeners for WebSocket message event, ignoring received message'' []]"
proof -
  have l: "listeners connected EvMessage = [[]]" "listeners fresh EvMessage = []"
    by (simp_all add: connected_eq fresh_eq)
  have p: "parse w3c [] = None" "parse w3c ''ping'' = Some (JString ''ping'')"
    by (simp_all add: w3c_def)
  from inbound_message [OF connected_facts(1), where env = w3c and raw = "''''" and k = 0]
    inbound_message [OF connected_facts(1), where env = w3c and raw = "''ping''" and k = 0]
    inbound_message [OF fresh_facts(1), where env = w3c and raw = "''ping''" and k = 0]
  show ?thesis
    by (simp add: l p connected_facts fresh_facts logger_fields)
qed

section \<open>Sending\<close>

lemma try_send_cases:
  assumes "current_socket t = Some i"
  shows "try_send env message t =
           (case stringify env message of
              Inl e \<Rightarrow> (Some e, t)
            | Inr frame \<Rightarrow>
                (case ws_send env (impl (sockets t ! i)) frame of
                   Inl e \<Rightarrow> (Some e, t\<lparr>trace := trace t @ [SocketSend i frame]\<rparr>)
                 | Inr w \<Rightarrow> (None, set_impl i w (t\<lparr>trace := trace t @ [SocketSend i frame]\<rparr>))))"
  using assms by (simp add: try_send_def Let_def split: sum.splits)

text \<open>
  C5 as stated fails: a message that \<^verbatim>\<open>JSON.stringify\<close> rejects makes \<^verbatim>\<open>send\<close> fail on a
  transport that is not closed, and the socket is never called; the trace gains the
  error line only.
\<close>

theorem send_fails_on_unserialisable_message:
  "\<not> closed connected \<and>
   ws_send w3c (impl (sockets connected ! 0)) ''7'' = Inr OPEN \<and>
   send w3c (JBigInt 7) connected =
     (Inl (TypeError ''Do not know how to serialize a BigInt''),
      connected\<lparr>trace := trace connected @
        [Log Err ''send() | error sending message: %o''
           [ArgExn (TypeError ''Do not know how to serialize a BigInt'')]]\<rparr>)"
proof -
  have "stringify w3c (JBigInt 7) = Inl (TypeError ''Do not know how to serialize a BigInt'')"
    by (simp add: w3c_def)
  moreover have "ws_send w3c (impl (sockets connected ! 0)) ''7'' = Inr OPEN"
    by (simp add: w3c_def connected_eq)
  ultimately show ?thesis
    using connected_facts(1)
    by (simp add: send_def try_send_cases[OF connected_facts(3)] logger_def)
qed

lemma send_cases:
  assumes "current_socket t = Some i"
  shows "(isl (fst (send env message t)) \<longleftrightarrow>
            closed t \<or> isl (stringify env message) \<or>
            isl (ws_send env (impl (sockets t ! i)) (projr (stringify env message)))) \<and>
         send env message t =
           (if closed t then (Inl (Error ''transport closed''), t)
            else
              (case stringify env message of
                 Inl e \<Rightarrow>
                   (Inl e, logger Err ''send() | error sending message: %o'' [ArgExn e] t)
               | Inr frame \<Rightarrow>
                   (case ws_send env (impl (sockets t ! i)) frame of
                      Inl e \<Rightarrow>
                        (Inl e,
                         logger Err ''send() | error sending message: %o'' [ArgExn e]
                           (t\<lparr>trace := trace t @ [SocketSend i frame]\<rparr>))
                    | Inr w \<Rightarrow>
                        (Inr (), set_impl i w (t\<lparr>trace := trace t @ [SocketSend i frame]\<rparr>)))))"
  by (simp add: send_def try_send_cases[OF assms] split: sum.splits)

text \<open>
  C5, as the code has it. Let \<open>t\<close> be any state the transport reaches from its constructor,
  and \<open>i\<close> its current socket. \<^verbatim>\<open>send\<close> fails if and only if the transport is closed, or
  serialising the message throws, or the socket's \<^verbatim>\<open>send\<close> throws. When closed it rejects
  with \<open>transport closed\<close> and the state is untouched. When serialising throws, the error is
  logged and returned and the socket is not called. When the socket's \<^verbatim>\<open>send\<close> throws, the
  error is logged and returned. Otherwise the serialised message has been handed to the
  current socket and the result is success.
\<close>

theorem send_outcomes:
  assumes "t = run env ins (constructor env u opts)"
  shows "\<exists>i. current_socket t = Some i \<and>
           (isl (fst (send env message t)) \<longleftrightarrow>
              closed t \<or> isl (stringify env message) \<or>
              isl (ws_send env (impl (sockets t ! i)) (projr (stringify env message)))) \<and>
           send env message t =
             (if closed t then (Inl (Error ''transport closed''), t)
              else
                (case stringify env message of
                   Inl e \<Rightarrow>
                     (Inl e, logger Err ''send() | error sending message: %o'' [ArgExn e] t)
                 | Inr frame \<Rightarrow>
                     (case ws_send env (impl (sockets t ! i)) frame of
                        Inl e \<Rightarrow>
                          (Inl e,
                           logger Err ''send() | error sending message: %o'' [ArgExn e]
                             (t\<lparr>trace := trace t @ [SocketSend i frame]\<rparr>))
                      | Inr w \<Rightarrow>
                          (Inr (),
                           set_impl i w (t\<lparr>trace := trace t @ [SocketSend i frame]\<rparr>)))))"
proof -
  have "\<exists>i. current_socket (constructor env u opts) = Some i"
    by (simp add: current_socket_def constructor_socket)
  then have "\<exists>i. current_socket t = Some i"
    unfolding assms by (rule run_current_socket)
  then obtain i where i: "current_socket t = Some i" ..
  from send_cases[OF i, of env message] i show ?thesis by blast
qed

theorem send_outcomes_witness:
  "connected = run w3c [On EvMessage [], FireOpen 0] (constructor w3c ''wss://example.org'' None) \<and>
   send w3c (JString ''hello'') connected =
     (Inr (), connected\<lparr>trace := trace connected @ [SocketSend 0 ''hello'']\<rparr>) \<and>
   fresh = run w3c [] (constructor w3c ''wss://example.org'' None) \<and>
   fst (send w3c (JString ''hello'') fresh) =
     Inl (Error ''cannot call send() while not connected'') \<and>
   snd (close w3c connected) =
     run w3c [On EvMessage [], FireOpen 0, DoClose] (constructor w3c ''wss://example.org'' None) \<and>
   send w3c (JString ''hello'') (snd (close w3c connected)) =
     (Inl (Error ''transport closed''), snd (close w3c connected))"
proof -
  have r: "connected = run w3c [On EvMessage [], FireOpen 0] (constructor w3c ''wss://example.org'' None)"
    "fresh = run w3c [] (constructor w3c ''wss://example.org'' None)"
    "snd (close w3c connected) =
       run w3c [On EvMessage [], FireOpen 0, DoClose] (constructor w3c ''wss://example.org'' None)"
    by (simp_all add: connected_def fresh_def)
  have f: "current_socket fresh = Some 0" "impl (sockets fresh ! 0) = CONNECTING"
    by (simp_all add: fresh_eq current_socket_def)
  have c: "current_socket (snd (close w3c connected)) = Some 0"
    using current_socket_cong[of "snd (close w3c connected)" connected]
    by (simp add: close_frame connected_facts)
  have i: "impl (sockets connected ! 0) = OPEN" by (simp add: connected_eq)
  have s: "stringify w3c (JString ''hello'') = Inr ''hello''" by (simp add: w3c_def)
  have w: "ws_send w3c OPEN ''hello'' = Inr OPEN"
    "ws_send w3c CONNECTING ''hello'' = Inl (Error ''cannot call send() while not connected'')"
    by (simp_all add: w3c_def)
  have u: "set_impl 0 OPEN (connected\<lparr>trace := trace connected @ [SocketSend 0 ''hello'']\<rparr>) =
      connected\<lparr>trace := trace connected @ [SocketSend 0 ''hello'']\<rparr>"
    by (simp add: set_impl_def connected_eq)
  from send_outcomes [OF r(1), where message = "JString ''hello''"]
  have 1: "send w3c (JString ''hello'') connected =
      (Inr (), connected\<lparr>trace := trace connected @ [SocketSend 0 ''hello'']\<rparr>)"
    by (simp add: connected_facts i s w u)
  from send_outcomes [OF r(2), where message = "JString ''hello''"]
  have 2: "fst (send w3c (JString ''hello'') fresh) =
      Inl (Error ''cannot call send() while not connected'')"
    by (simp add: fresh_facts f s w)
  from send_outcomes [OF r(3), where message = "JString ''hello''"]
  have 3: "send w3c (JString ''hello'') (snd (close w3c connected)) =
      (Inl (Error ''transport closed''), snd (close w3c connected))"
    by (simp add: c close_frame)
  show ?thesis by (intro conjI) (rule r 1 2 3)+
qed

section \<open>Closing\<close>

lemma try_close_cases:
  assumes "current_socket t = Some i"
  shows "fst (try_close env t) =
           (case ws_close env (impl (sockets t ! i)) of Inl e \<Rightarrow> Some e | Inr w \<Rightarrow> None)"
    and "trace (snd (try_close env t)) =
           trace t @ [Assign i Onopen None, Assign i Onclose None, Assign i Onerror None,
                      Assign i Onmessage None, SocketClose i]"
    and "onopen (sockets (snd (try_close env t)) ! i) = None"
    and "onclose (sockets (snd (try_close env t)) ! i) = None"
    and "onerror (sockets (snd (try_close env t)) ! i) = None"
    and "onmessage (sockets (snd (try_close env t)) ! i) = None"
proof -
  from assms have i: "i < length (sockets t)"
    by (simp add: current_socket_def split: option.splits if_splits)
  show "fst (try_close env t) =
      (case ws_close env (impl (sockets t ! i)) of Inl e \<Rightarrow> Some e | Inr w \<Rightarrow> None)"
    using assms i by (simp add: try_close_def Let_def assign_def split: sum.splits)
  show "trace (snd (try_close env t)) =
      trace t @ [Assign i Onopen None, Assign i Onclose None, Assign i Onerror None,
                 Assign i Onmessage None, SocketClose i]"
    using assms by (simp add: try_close_def Let_def assign_def set_impl_def split: sum.splits)
  show "onopen (sockets (snd (try_close env t)) ! i) = None"
    using assms i by (simp add: try_close_def Let_def assign_def set_impl_def split: sum.splits)
  show "onclose (sockets (snd (try_close env t)) ! i) = None"
    using assms i by (simp add: try_close_def Let_def assign_def set_impl_def split: sum.splits)
  show "onerror (sockets (snd (try_close env t)) ! i) = None"
    using assms i by (simp add: try_close_def Let_def assign_def set_impl_def split: sum.splits)
  show "onmessage (sockets (snd (try_close env t)) ! i) = None"
    using assms i by (simp add: try_close_def Let_def assign_def set_impl_def split: sum.splits)
qed

lemma try_close_null:
  "current_socket t = None \<Longrightarrow>
   try_close env t = (Some (TypeError ''Cannot set properties of null (setting onopen)''), t)"
  by (simp add: try_close_def)

lemma emit_close_in_close:
  "fst (emit_close env (logger Debug ''close()'' [] t\<lparr>closed := True\<rparr>)) =
     thrown (concat (listeners t EvClose))"
  "sockets (snd (emit_close env (logger Debug ''close()'' [] t\<lparr>closed := True\<rparr>))) = sockets t"
  "ws (snd (emit_close env (logger Debug ''close()'' [] t\<lparr>closed := True\<rparr>))) = ws t"
  "trace (snd (emit_close env (logger Debug ''close()'' [] t\<lparr>closed := True\<rparr>))) =
     trace t @ [Log Debug ''close()'' [], Emit EvClose None] @
       map (\<lambda>c. Log Debug ''close()'' [])
         (filter (\<lambda>c. c = CallClose) (reached (concat (listeners t EvClose))))"
  by (simp_all add: emit_close_closed logger_def)

lemma close_escapes:
  assumes "\<not> closed t" and "thrown (concat (listeners t EvClose)) = Some e"
  shows "close env t =
           (Some e, snd (emit_close env (logger Debug ''close()'' [] t\<lparr>closed := True\<rparr>)))"
  using assms by (simp add: close_unfold Let_def emit_close_in_close)

lemma close_trace:
  assumes "\<not> closed t" and "thrown (concat (listeners t EvClose)) = None"
  shows "fst (close env t) = None"
    and "trace (snd (close env t)) =
           trace (snd (try_close env
                    (snd (emit_close env (logger Debug ''close()'' [] t\<lparr>closed := True\<rparr>))))) @
             (case fst (try_close env
                          (snd (emit_close env (logger Debug ''close()'' [] t\<lparr>closed := True\<rparr>)))) of
                None \<Rightarrow> []
              | Some e \<Rightarrow> [Log Err ''close() | error closing the WebSocket: %o'' [ArgExn e]])"
    and "sockets (snd (close env t)) =
           sockets (snd (try_close env
                      (snd (emit_close env (logger Debug ''close()'' [] t\<lparr>closed := True\<rparr>)))))"
  using assms
  by (simp_all add: close_unfold Let_def emit_close_in_close logger_fields split: option.splits)

lemma spoiler_eq:
  "spoiler =
     \<lparr>url = ''wss://example.org'', options = empty_options, ws = Some 0, closed = False,
      listeners = (\<lambda>n. [])(EvClose := [[CallThrow listener_error]]),
      sockets = [\<lparr>onopen = Some 0, onclose = Some 0, onerror = Some 0, onmessage = Some 0,
                  impl = OPEN\<rparr>],
      sessions = [\<lparr>operation = retry_operation DEFAULT_RETRY_OPTIONS, wasConnected = True\<rparr>],
      trace = [Log Debug ''constructor() [url:%s, options:%o]''
                 [ArgStr ''wss://example.org'', ArgOptions None],
               Log Debug ''_setWebSocket() [currentAttempt:%s]'' [ArgNat 1], NewSocket 0,
               Assign 0 Onopen (Some 0), Assign 0 Onclose (Some 0),
               Assign 0 Onerror (Some 0), Assign 0 Onmessage (Some 0), Emit EvOpen None]\<rparr>"
  unfolding spoiler_def by (rule opened_eq) simp

lemma spoiler_facts:
  "\<not> closed spoiler"
  "listeners spoiler EvClose = [[CallThrow listener_error]]"
  "sockets spoiler =
     [\<lparr>onopen = Some 0, onclose = Some 0, onerror = Some 0, onmessage = Some 0, impl = OPEN\<rparr>]"
  by (simp_all add: spoiler_eq)

text \<open>
  C6 as stated fails: when a listener of \<open>close\<close> throws, the exception escapes
  \<^verbatim>\<open>close()\<close> to its caller. The flag is set and the event emitted, but the teardown is not
  run: the trace ends with the event, and the socket keeps its four callbacks and is not
  asked to close.
\<close>

theorem close_listener_may_throw:
  "\<not> closed spoiler \<and>
   fst (close w3c spoiler) = Some listener_error \<and>
   closed (snd (close w3c spoiler)) \<and>
   trace (snd (close w3c spoiler)) =
     trace spoiler @ [Log Debug ''close()'' [], Emit EvClose None] \<and>
   sockets (snd (close w3c spoiler)) =
     [\<lparr>onopen = Some 0, onclose = Some 0, onerror = Some 0, onmessage = Some 0, impl = OPEN\<rparr>]"
proof -
  have t: "thrown (concat (listeners spoiler EvClose)) = Some listener_error"
    "reached (concat (listeners spoiler EvClose)) = []"
    by (simp_all add: spoiler_facts)
  note E = close_escapes[OF spoiler_facts(1) t(1), of w3c]
  have c: "closed (snd (close w3c spoiler))" by (rule close_frame(1))
  have f: "fst (close w3c spoiler) = Some listener_error" by (simp add: E)
  have tr: "trace (snd (close w3c spoiler)) =
      trace spoiler @ [Log Debug ''close()'' [], Emit EvClose None]"
    by (simp add: E emit_close_in_close t)
  have so: "sockets (snd (close w3c spoiler)) =
      [\<lparr>onopen = Some 0, onclose = Some 0, onerror = Some 0, onmessage = Some 0, impl = OPEN\<rparr>]"
    by (simp add: E emit_close_in_close spoiler_facts)
  from spoiler_facts(1) f c tr so show ?thesis by (intro conjI)
qed

text \<open>
  C6, as the code has it. \<^verbatim>\<open>close()\<close> on a transport that is not closed sets the closed
  flag and emits exactly one \<open>close\<close> event, in every case, and the trace shows the order:
  the debug line, then the \<open>close\<close> event, during which the flag is already set, so a
  listener that calls \<^verbatim>\<open>close()\<close> again only logs and one that sends is rejected. If a
  listener of \<open>close\<close> throws, the exception escapes \<^verbatim>\<open>close()\<close> and nothing more happens:
  the sockets are as they were. If none throws, \<^verbatim>\<open>close()\<close> throws nothing: only then are
  the four callbacks of the current socket \<open>i\<close> set to \<^verbatim>\<open>null\<close> and the socket's \<^verbatim>\<open>close\<close>
  called, and if that call throws, the error is logged and \<^verbatim>\<open>close()\<close> returns all the
  same; so it does if there is no socket to tear down.
\<close>

theorem close_tears_down_after_emitting:
  assumes "\<not> closed t"
  shows "closed (snd (close env t)) \<and>
         emitted (snd (close env t)) = emitted t @ [(EvClose, None)] \<and>
         ws (snd (close env t)) = ws t \<and>
         (case thrown (concat (listeners t EvClose)) of
            Some e \<Rightarrow>
              fst (close env t) = Some e \<and>
              trace (snd (close env t)) =
                trace t @ [Log Debug ''close()'' [], Emit EvClose None] @
                  map (\<lambda>c. Log Debug ''close()'' [])
                    (filter (\<lambda>c. c = CallClose) (reached (concat (listeners t EvClose)))) \<and>
              sockets (snd (close env t)) = sockets t
          | None \<Rightarrow>
              fst (close env t) = None \<and>
              (case current_socket t of
                 None \<Rightarrow>
                   trace (snd (close env t)) =
                     trace t @ [Log Debug ''close()'' [], Emit EvClose None] @
                       map (\<lambda>c. Log Debug ''close()'' [])
                         (filter (\<lambda>c. c = CallClose) (concat (listeners t EvClose))) @
                       [Log Err ''close() | error closing the WebSocket: %o''
                          [ArgExn (TypeError ''Cannot set properties of null (setting onopen)'')]]
               | Some i \<Rightarrow>
                   trace (snd (close env t)) =
                     trace t @ [Log Debug ''close()'' [], Emit EvClose None] @
                       map (\<lambda>c. Log Debug ''close()'' [])
                         (filter (\<lambda>c. c = CallClose) (concat (listeners t EvClose))) @
                       [Assign i Onopen None, Assign i Onclose None, Assign i Onerror None,
                        Assign i Onmessage None, SocketClose i] @
                       (case ws_close env (impl (sockets t ! i)) of
                          Inl e \<Rightarrow>
                            [Log Err ''close() | error closing the WebSocket: %o'' [ArgExn e]]
                        | Inr w \<Rightarrow> []) \<and>
                   onopen (sockets (snd (close env t)) ! i) = None \<and>
                   onclose (sockets (snd (close env t)) ! i) = None \<and>
                   onerror (sockets (snd (close env t)) ! i) = None \<and>
                   onmessage (sockets (snd (close env t)) ! i) = None))"
proof -
  let ?cs = "concat (listeners t EvClose)"
  let ?v = "snd (emit_close env (logger Debug ''close()'' [] t\<lparr>closed := True\<rparr>))"
  have cs: "current_socket ?v = current_socket t"
    by (rule current_socket_cong) (simp_all add: emit_close_in_close)
  have 1: "closed (snd (close env t)) \<and>
      emitted (snd (close env t)) = emitted t @ [(EvClose, None)] \<and>
      ws (snd (close env t)) = ws t"
    using assms by (simp add: close_frame)
  show ?thesis
  proof (cases "thrown ?cs")
    case (Some e)
    from close_escapes[OF assms Some, of env] 1 Some show ?thesis
      by (simp add: emit_close_in_close)
  next
    case nt: None
    note C = close_trace[OF assms nt, of env]
    have ra: "reached ?cs = ?cs" using nt by (rule reached_all)
    show ?thesis
    proof (cases "current_socket t")
      case None
      with cs have "try_close env ?v =
          (Some (TypeError ''Cannot set properties of null (setting onopen)''), ?v)"
        by (simp add: try_close_null)
      with 1 None nt show ?thesis by (simp add: C emit_close_in_close(4) ra)
    next
      case (Some i)
      with cs have "current_socket ?v = Some i" by simp
      note T = try_close_cases[OF this, of env]
      have "trace (snd (close env t)) =
          trace t @ [Log Debug ''close()'' [], Emit EvClose None] @
            map (\<lambda>c. Log Debug ''close()'' [])
              (filter (\<lambda>c. c = CallClose) (concat (listeners t EvClose))) @
            [Assign i Onopen None, Assign i Onclose None, Assign i Onerror None,
             Assign i Onmessage None, SocketClose i] @
            (case ws_close env (impl (sockets t ! i)) of
               Inl e \<Rightarrow> [Log Err ''close() | error closing the WebSocket: %o'' [ArgExn e]]
             | Inr w \<Rightarrow> [])"
        unfolding C(2) T(1) T(2) emit_close_in_close ra by (simp split: sum.splits)
      with 1 Some nt show ?thesis by (simp add: C(1) C(3) T)
    qed
  qed
qed

theorem close_tears_down_after_emitting_witness:
  "\<not> closed connected \<and> current_socket connected = Some 0 \<and>
   fst (close w3c connected) = None \<and>
   closed (snd (close w3c connected)) \<and>
   trace (snd (close w3c connected)) =
     trace connected @
       [Log Debug ''close()'' [], Emit EvClose None, Assign 0 Onopen None, Assign 0 Onclose None,
        Assign 0 Onerror None, Assign 0 Onmessage None, SocketClose 0] \<and>
   fst (close w3c_faulty connected) = None \<and>
   closed (snd (close w3c_faulty connected)) \<and>
   onclose (sockets (snd (close w3c_faulty connected)) ! 0) = None \<and>
   trace (snd (close w3c_faulty connected)) =
     trace connected @
       [Log Debug ''close()'' [], Emit EvClose None, Assign 0 Onopen None, Assign 0 Onclose None,
        Assign 0 Onerror None, Assign 0 Onmessage None, SocketClose 0,
        Log Err ''close() | error closing the WebSocket: %o'' [ArgExn (Error ''close failed'')]]"
proof -
  have l: "listeners connected EvClose = []" by (simp add: connected_eq)
  have w: "ws_close w3c (impl (sockets connected ! 0)) = Inr CLOSING"
    "ws_close w3c_faulty (impl (sockets connected ! 0)) = Inl (Error ''close failed'')"
    by (simp_all add: w3c_def w3c_faulty_def connected_eq)
  from close_tears_down_after_emitting [OF connected_facts(1), of w3c]
    close_tears_down_after_emitting [OF connected_facts(1), of w3c_faulty]
  show ?thesis
    by (simp add: connected_facts l w)
qed

end
